theory Spec2Isabelle
  imports Complex_Main "HOL-Library.AList" "HOL-Library.Sublist"
begin

chapter \<open>Warehouse event pipeline and alert manager\<close>

text \<open>
  A shallow embedding of the streaming pipeline (event processor, enricher, anomaly
  detector, time windows, storage manager) and of the alert manager. Python functions
  become HOL functions; every exception the code can raise is the left summand of a
  result type; objects mutated in place are passed in and returned.
\<close>

section \<open>Python values\<close>

text \<open>
  The exceptions that the modelled code can raise.
\<close>

datatype error = TypeError | ValueError | AttributeError | OverflowError | KeyError

text \<open>
  A \<^verbatim>\<open>datetime\<close> object is represented by its position on the time line, in
  microseconds since 0001-01-01T00:00:00 (the value of \<^verbatim>\<open>datetime.min\<close>), together
  with the calendar attributes the code reads. A \<^verbatim>\<open>timedelta\<close> is a number of
  microseconds.
\<close>

record datetime =
  dt_us :: int
  dt_hour :: int
  dt_weekday :: int
  dt_month :: int

text \<open>
  Values of Python's dynamic types as they occur in the event dictionaries. A dictionary
  with string keys is an association list in insertion order; \<^verbatim>\<open>float\<close> values are
  idealised as real numbers (rounding, infinities and NaN are outside the model).
\<close>

datatype pyval =
    PNone
  | PBool bool
  | PInt int
  | PFloat real
  | PStr string
  | PDatetime datetime
  | PList "pyval list"
  | PDict "(string \<times> pyval) list"

type_synonym pydict = "(string \<times> pyval) list"

section \<open>Time windows\<close>

text \<open>
  \<^verbatim>\<open>TimeWindow\<close> of \<^verbatim>\<open>aggregators/base_aggregator.py\<close>. The deque \<^verbatim>\<open>data\<close> is a
  list whose head is the front (left end) of the deque. Timestamps are datetimes of one
  kind, given by their microsecond count.
\<close>

record 'a TimeWindow =
  window_size :: int
  slide_interval :: int
  data :: "(int \<times> 'a) list"

text \<open>
  \<^verbatim>\<open>TimeWindow.__init__\<close>: \<^verbatim>\<open>slide_interval or window_size\<close> takes the window size
  when no interval is given or when the interval is the zero timedelta (which is falsy).
\<close>

definition TimeWindow_init :: "int \<Rightarrow> int option \<Rightarrow> 'a TimeWindow" where
  "TimeWindow_init ws si =
     \<lparr> window_size = ws,
       slide_interval = (case si of None \<Rightarrow> ws | Some i \<Rightarrow> if i = 0 then ws else i),
       data = [] \<rparr>"

text \<open>
  The largest datetime, 9999-12-31T23:59:59.999999, in microseconds since
  \<^verbatim>\<open>datetime.min\<close>; \<^verbatim>\<open>datetime - timedelta\<close> raises \<^verbatim>\<open>OverflowError\<close> when the
  result leaves the range of datetimes.
\<close>

definition datetime_max_us :: int where
  "datetime_max_us = 3652059 * 86400000000 - 1"

definition datetime_sub :: "int \<Rightarrow> int \<Rightarrow> error + int" where
  "datetime_sub t delta =
     (let r = t - delta
      in if 0 \<le> r \<and> r \<le> datetime_max_us then Inr r else Inl OverflowError)"

text \<open>
  The loop of \<^verbatim>\<open>_cleanup_old_data\<close>:
  \<^verbatim>\<open>while self.data and self.data[0][0] < cutoff_time: self.data.popleft()\<close>.
\<close>

fun popleft_while :: "int \<Rightarrow> (int \<times> 'a) list \<Rightarrow> (int \<times> 'a) list" where
  "popleft_while cutoff_time [] = []"
| "popleft_while cutoff_time (e # es) =
     (if fst e < cutoff_time then popleft_while cutoff_time es else e # es)"

definition cleanup_old_data :: "'a TimeWindow \<Rightarrow> int \<Rightarrow> error + 'a TimeWindow" where
  "cleanup_old_data w current_time =
     (case datetime_sub current_time (window_size w) of
        Inl e \<Rightarrow> Inl e
      | Inr cutoff_time \<Rightarrow> Inr (w\<lparr>data := popleft_while cutoff_time (data w)\<rparr>))"

text \<open>
  \<^verbatim>\<open>TimeWindow.add\<close>: append at the right end, then clean up from the left end. When
  the subtraction raises, the exception leaves \<^verbatim>\<open>add\<close> (the appended entry stays in
  the deque; the result \<open>Inl\<close> only records the exception).
\<close>

definition TimeWindow_add :: "'a TimeWindow \<Rightarrow> int \<Rightarrow> 'a \<Rightarrow> error + 'a TimeWindow" where
  "TimeWindow_add w timestamp x =
     cleanup_old_data (w\<lparr>data := data w @ [(timestamp, x)]\<rparr>) timestamp"

text \<open>A run of calls of \<^verbatim>\<open>add\<close>, one per entry of a list, stopping at the first exception.\<close>

fun add_all :: "'a TimeWindow \<Rightarrow> (int \<times> 'a) list \<Rightarrow> error + 'a TimeWindow" where
  "add_all w [] = Inr w"
| "add_all w (e # es) =
     (case TimeWindow_add w (fst e) (snd e) of Inl err \<Rightarrow> Inl err | Inr w' \<Rightarrow> add_all w' es)"

section \<open>Dictionaries, truth values and strings\<close>

text \<open>\<^verbatim>\<open>d.get(k, default)\<close> and \<^verbatim>\<open>k in d\<close> for a dictionary with string keys.\<close>

definition dict_get :: "pydict \<Rightarrow> string \<Rightarrow> pyval \<Rightarrow> pyval" where
  "dict_get d k dflt = (case map_of d k of None \<Rightarrow> dflt | Some v \<Rightarrow> v)"

definition dict_has :: "pydict \<Rightarrow> string \<Rightarrow> bool" where
  "dict_has d k = (map_of d k \<noteq> None)"

text \<open>The truth value Python gives a value in \<^verbatim>\<open>if v:\<close>, \<^verbatim>\<open>not v\<close> and \<^verbatim>\<open>v or w\<close>.\<close>

fun py_truthy :: "pyval \<Rightarrow> bool" where
  "py_truthy PNone = False"
| "py_truthy (PBool b) = b"
| "py_truthy (PInt i) = (i \<noteq> 0)"
| "py_truthy (PFloat r) = (r \<noteq> 0)"
| "py_truthy (PStr s) = (s \<noteq> [])"
| "py_truthy (PDatetime t) = True"
| "py_truthy (PList xs) = (xs \<noteq> [])"
| "py_truthy (PDict kvs) = (kvs \<noteq> [])"

text \<open>
  \<^verbatim>\<open>str.lower\<close> on the ASCII letters (characters beyond ASCII are left as they are),
  and the method call \<^verbatim>\<open>v.lower()\<close>, which raises \<^verbatim>\<open>AttributeError\<close> on a value
  that is not a string.
\<close>

definition char_lower :: "char \<Rightarrow> char" where
  "char_lower c =
     (let n = (of_char c :: nat) in if 65 \<le> n \<and> n \<le> 90 then char_of (n + 32) else c)"

definition py_lower :: "pyval \<Rightarrow> error + string" where
  "py_lower v = (case v of PStr s \<Rightarrow> Inr (map char_lower s) | _ \<Rightarrow> Inl AttributeError)"

text \<open>\<^verbatim>\<open>sub in s\<close> for two strings: \<open>sub\<close> occurs in \<open>s\<close> as a contiguous piece.\<close>

fun starts_with :: "string \<Rightarrow> string \<Rightarrow> bool" where
  "starts_with [] s = True"
| "starts_with (c # cs) [] = False"
| "starts_with (c # cs) (x # xs) = (c = x \<and> starts_with cs xs)"

fun str_contains :: "string \<Rightarrow> string \<Rightarrow> bool" where
  "str_contains sub [] = (sub = [])"
| "str_contains sub (x # xs) = (starts_with sub (x # xs) \<or> str_contains sub xs)"

section \<open>Alert manager\<close>

text \<open>\<^verbatim>\<open>monitoring/alerting/alert_manager.py\<close>.\<close>

datatype AlertSeverity = INFO | WARNING | ERROR | CRITICAL

datatype AlertStatus = ACTIVE | RESOLVED | ACKNOWLEDGED

record Alert =
  alert_id :: string
  title :: string
  description :: string
  severity :: AlertSeverity
  source :: string
  timestamp :: int
  metadata :: pydict
  status :: AlertStatus
  acknowledged_by :: "string option"
  acknowledged_at :: "int option"
  resolved_at :: "int option"

text \<open>
  \<^verbatim>\<open>Alert.__init__\<close>. The clock reading \<open>now\<close> stands for
  \<^verbatim>\<open>datetime.now(tz=timezone.utc)\<close>; \<^verbatim>\<open>metadata or {}\<close> is the empty dictionary for
  \<^verbatim>\<open>None\<close> and for an empty dictionary.
\<close>

definition Alert_init ::
  "string \<Rightarrow> string \<Rightarrow> string \<Rightarrow> AlertSeverity \<Rightarrow> string \<Rightarrow> int option \<Rightarrow> pydict option
     \<Rightarrow> int \<Rightarrow> Alert" where
  "Alert_init aid ttl descr sev src ts md now =
     \<lparr> alert_id = aid, title = ttl, description = descr, severity = sev, source = src,
       timestamp = (case ts of None \<Rightarrow> now | Some t \<Rightarrow> t),
       metadata = (case md of None \<Rightarrow> [] | Some d \<Rightarrow> d),
       status = ACTIVE, acknowledged_by = None, acknowledged_at = None,
       resolved_at = None \<rparr>"

definition acknowledge :: "Alert \<Rightarrow> string \<Rightarrow> int \<Rightarrow> Alert" where
  "acknowledge a user now =
     a\<lparr>status := ACKNOWLEDGED, acknowledged_by := Some user, acknowledged_at := Some now\<rparr>"

definition resolve :: "Alert \<Rightarrow> int \<Rightarrow> Alert" where
  "resolve a now = a\<lparr>status := RESOLVED, resolved_at := Some now\<rparr>"

text \<open>
  The notification channels, each with the configuration it was built from. What a send
  does on the network is outside the model: a send is recorded as the pair of the channel
  and the alert handed to it.
\<close>

datatype NotificationChannel =
    EmailNotificationChannel pyval
  | SlackNotificationChannel pyval
  | WebhookNotificationChannel pyval pyval

record AlertManager =
  config :: pydict
  active_alerts :: "string \<rightharpoonup> Alert"
  notification_channels :: "NotificationChannel list"
  alert_rules :: "pyval list"

text \<open>
  The enum constructor \<^verbatim>\<open>AlertSeverity(value)\<close>: \<^verbatim>\<open>ValueError\<close> unless the value
  is one of the four names.
\<close>

definition AlertSeverity_of :: "pyval \<Rightarrow> error + AlertSeverity" where
  "AlertSeverity_of v =
     (if v = PStr ''info'' then Inr INFO
      else if v = PStr ''warning'' then Inr WARNING
      else if v = PStr ''error'' then Inr ERROR
      else if v = PStr ''critical'' then Inr CRITICAL
      else Inl ValueError)"

fun severity_levels :: "AlertSeverity \<Rightarrow> int" where
  "severity_levels INFO = 0"
| "severity_levels WARNING = 1"
| "severity_levels ERROR = 2"
| "severity_levels CRITICAL = 3"

text \<open>
  \<^verbatim>\<open>_send_notifications\<close>: the result is the list of sends dispatched, one task per
  channel in the order of \<^verbatim>\<open>notification_channels\<close>. The outcomes gathered from the
  tasks only feed a log line.
\<close>

definition send_notifications ::
  "AlertManager \<Rightarrow> Alert \<Rightarrow> error + (NotificationChannel \<times> Alert) list" where
  "send_notifications m alert =
     (case AlertSeverity_of
             (dict_get (config m) ''min_notification_severity'' (PStr ''warning'')) of
        Inl e \<Rightarrow> Inl e
      | Inr min_severity \<Rightarrow>
          if severity_levels (severity alert) < severity_levels min_severity then Inr []
          else Inr (map (\<lambda>channel. (channel, alert)) (notification_channels m)))"

text \<open>
  \<^verbatim>\<open>create_alert\<close>: the manager after the call, and either the exception raised or the
  alert returned with the sends dispatched during the call.
\<close>

definition create_alert ::
  "AlertManager \<Rightarrow> int \<Rightarrow> string \<Rightarrow> string \<Rightarrow> string \<Rightarrow> AlertSeverity \<Rightarrow> string
     \<Rightarrow> pydict option
     \<Rightarrow> AlertManager \<times> (error + Alert \<times> (NotificationChannel \<times> Alert) list)" where
  "create_alert m now aid ttl descr sev src md =
     (let existing_active =
            (case active_alerts m aid of
               None \<Rightarrow> None
             | Some existing_alert \<Rightarrow>
                 if status existing_alert = ACTIVE then Some existing_alert else None)
      in case existing_active of
           Some existing_alert \<Rightarrow> (m, Inr (existing_alert, []))
         | None \<Rightarrow>
             (let alert = Alert_init aid ttl descr sev src None md now;
                  m' = m\<lparr>active_alerts := (active_alerts m)(aid \<mapsto> alert)\<rparr>
              in (m', case send_notifications m' alert of
                        Inl e \<Rightarrow> Inl e
                      | Inr sends \<Rightarrow> Inr (alert, sends))))"

definition acknowledge_alert :: "AlertManager \<Rightarrow> int \<Rightarrow> string \<Rightarrow> string \<Rightarrow> AlertManager \<times> bool" where
  "acknowledge_alert m now aid user =
     (case active_alerts m aid of
        None \<Rightarrow> (m, False)
      | Some alert \<Rightarrow>
          (m\<lparr>active_alerts := (active_alerts m)(aid \<mapsto> acknowledge alert user now)\<rparr>, True))"

definition resolve_alert :: "AlertManager \<Rightarrow> int \<Rightarrow> string \<Rightarrow> AlertManager \<times> bool" where
  "resolve_alert m now aid =
     (case active_alerts m aid of
        None \<Rightarrow> (m, False)
      | Some alert \<Rightarrow> (m\<lparr>active_alerts := (active_alerts m)(aid := None)\<rparr>, True))"

text \<open>
  Example managers: two channels, the default threshold (no
  \<^verbatim>\<open>min_notification_severity\<close> in the configuration) and a threshold of
  \<^verbatim>\<open>error\<close>.
\<close>

definition example_channels :: "NotificationChannel list" where
  "example_channels =
     [EmailNotificationChannel (PDict [(''host'', PStr ''smtp.example.org'')]),
      SlackNotificationChannel (PStr ''https://hooks.example.org/T1'')]"

definition example_manager :: AlertManager where
  "example_manager =
     \<lparr> config = [], active_alerts = Map.empty,
       notification_channels = example_channels, alert_rules = [] \<rparr>"

definition strict_manager :: AlertManager where
  "strict_manager =
     \<lparr> config = [(''min_notification_severity'', PStr ''error'')],
       active_alerts = Map.empty,
       notification_channels = example_channels, alert_rules = [] \<rparr>"

text \<open>
  The example manager holding the alert \<^verbatim>\<open>A1\<close>, created critical at time 1000
  and acknowledged by \<^verbatim>\<open>bob\<close> at time 1500.
\<close>

definition acknowledged_manager :: AlertManager where
  "acknowledged_manager =
     example_manager\<lparr>active_alerts :=
       [''A1'' \<mapsto> acknowledge
          (Alert_init ''A1'' ''Low stock'' ''d'' CRITICAL ''detector'' None None 1000)
          ''bob'' 1500]\<rparr>"

section \<open>Storage manager\<close>

text \<open>
  \<^verbatim>\<open>storage/storage_manager.py\<close> and the adapter contract of
  \<^verbatim>\<open>storage/base_storage.py\<close>. What an adapter does with a record happens outside
  the program; an adapter is given by the outcome of its calls: the boolean returned, or
  the exception raised.
\<close>

datatype storage_exception = StorageError | ConnectionError | WriteError | OtherException

record BaseStorageAdapter =
  store :: "pydict \<Rightarrow> storage_exception + bool"
  batch_store :: "pydict list \<Rightarrow> storage_exception + bool"

record StorageManager =
  storage_config :: pydict
  adapters :: "(string \<times> BaseStorageAdapter) list"
  routing_rules :: "(string \<times> string list) list"

definition default_routing_rules :: "(string \<times> string list) list" where
  "default_routing_rules =
     [(''metrics'', [''influxdb'']),
      (''logs'', [''elasticsearch'']),
      (''alerts'', [''elasticsearch'', ''clickhouse'']),
      (''events'', [''clickhouse'']),
      (''aggregated'', [''clickhouse'']),
      (''performance'', [''influxdb'', ''clickhouse''])]"

text \<open>
  \<^verbatim>\<open>_initialize_adapters\<close>: one adapter for each of the three names that is a key of
  the configuration, unless its constructor raises (\<open>make_adapter\<close> gives \<open>None\<close> then;
  the exception is logged and the name left out).
\<close>

definition initialize_adapters ::
  "pydict \<Rightarrow> (string \<Rightarrow> pyval \<Rightarrow> BaseStorageAdapter option) \<Rightarrow> (string \<times> BaseStorageAdapter) list" where
  "initialize_adapters cfg make_adapter =
     concat (map (\<lambda>name.
        case map_of cfg name of
          None \<Rightarrow> []
        | Some c \<Rightarrow> (case make_adapter name c of None \<Rightarrow> [] | Some adapter \<Rightarrow> [(name, adapter)]))
       [''influxdb'', ''elasticsearch'', ''clickhouse''])"

definition StorageManager_init ::
  "pydict \<Rightarrow> (string \<Rightarrow> pyval \<Rightarrow> BaseStorageAdapter option) \<Rightarrow> StorageManager" where
  "StorageManager_init cfg make_adapter =
     \<lparr> storage_config = cfg,
       adapters = initialize_adapters cfg make_adapter,
       routing_rules = default_routing_rules \<rparr>"

text \<open>
  \<^verbatim>\<open>_infer_data_type\<close>. Each \<^verbatim>\<open>elif\<close> is evaluated only when the tests before it
  were false; \<^verbatim>\<open>data.get(k, '').lower()\<close> raises \<^verbatim>\<open>AttributeError\<close> when the
  field is present and not a string.
\<close>

definition infer_data_type :: "pydict \<Rightarrow> error + string" where
  "infer_data_type ev =
     (if dict_has ev ''metric_name'' \<or> dict_has ev ''measurement'' then Inr ''metrics''
      else case py_lower (dict_get ev ''event_type'' (PStr '''')) of
        Inl e \<Rightarrow> Inl e
      | Inr event_type \<Rightarrow>
          if str_contains ''alert'' event_type \<or> py_truthy (dict_get ev ''severity'' PNone)
          then Inr ''alerts''
          else case py_lower (dict_get ev ''data_type'' (PStr '''')) of
            Inl e \<Rightarrow> Inl e
          | Inr data_type \<Rightarrow>
              if str_contains ''aggregated'' data_type then Inr ''aggregated''
              else case py_lower (dict_get ev ''source'' (PStr '''')) of
                Inl e \<Rightarrow> Inl e
              | Inr src \<Rightarrow>
                  if str_contains ''performance'' src then Inr ''performance''
                  else if py_truthy (dict_get ev ''level'' PNone)
                          \<or> py_truthy (dict_get ev ''message'' PNone)
                  then Inr ''logs''
                  else Inr ''events'')"

definition get_target_adapters :: "StorageManager \<Rightarrow> string \<Rightarrow> string list" where
  "get_target_adapters m data_type =
     (case map_of (routing_rules m) data_type of
        None \<Rightarrow> [''clickhouse'']
      | Some names \<Rightarrow> names)"

text \<open>
  The composition \<^verbatim>\<open>_get_target_adapters(_infer_data_type(record))\<close>, with the
  exception of the inference passed on.
\<close>

definition route_record :: "StorageManager \<Rightarrow> pydict \<Rightarrow> error + string list" where
  "route_record m ev =
     (case infer_data_type ev of
        Inl e \<Rightarrow> Inl e
      | Inr data_type \<Rightarrow> Inr (get_target_adapters m data_type))"








text \<open>
  Example managers and an alert record as the inventory consumer produces it. In
  \<open>example_storage\<close> the search adapter stores every record and the warehouse adapter
  raises \<^verbatim>\<open>WriteError\<close>.
\<close>

definition succeeding_adapter :: BaseStorageAdapter where
  "succeeding_adapter = \<lparr> store = (\<lambda>ev. Inr True), batch_store = (\<lambda>evs. Inr True) \<rparr>"

definition write_error_adapter :: BaseStorageAdapter where
  "write_error_adapter = \<lparr> store = (\<lambda>ev. Inl WriteError), batch_store = (\<lambda>evs. Inl WriteError) \<rparr>"

definition example_storage :: StorageManager where
  "example_storage =
     StorageManager_init
       [(''elasticsearch'', PDict [(''hosts'', PStr ''es:9200'')]),
        (''clickhouse'', PDict [(''host'', PStr ''ch'')])]
       (\<lambda>name c. if name = ''elasticsearch'' then Some succeeding_adapter
                  else Some write_error_adapter)"

definition other_storage :: StorageManager where
  "other_storage =
     StorageManager_init [(''influxdb'', PDict [])] (\<lambda>name c. None)"

definition alert_record :: pydict where
  "alert_record =
     [(''type'', PStr ''inventory_anomaly''), (''item_id'', PStr ''I1''),
      (''confidence'', PFloat 0.9), (''severity'', PStr ''high'')]"


section \<open>Event processor\<close>

text \<open>
  \<^verbatim>\<open>processors/inventory_processor.py\<close>. The clock and the parsers of Python's
  library are taken from a runtime: \<open>now_utc\<close> and \<open>now_isoformat\<close> are readings of
  \<^verbatim>\<open>datetime.now(timezone.utc)\<close>; \<open>float_of_str\<close> is \<^verbatim>\<open>float\<close> on a string and
  \<open>fromisoformat\<close> is \<^verbatim>\<open>datetime.fromisoformat\<close>, with \<open>None\<close> where they raise
  \<^verbatim>\<open>ValueError\<close>; \<open>fromtimestamp\<close> is \<^verbatim>\<open>datetime.fromtimestamp\<close> with the UTC
  time zone, which raises \<^verbatim>\<open>ValueError\<close> or \<^verbatim>\<open>OverflowError\<close> on a number out of
  range; \<open>hash_of\<close> is \<^verbatim>\<open>hash\<close> on a hashable value (for strings it changes from
  one interpreter process to the next, and is fixed within one); \<open>str_of\<close> is the text
  that an f-string puts for a value that is not a string.
\<close>

record runtime =
  now_utc :: datetime
  now_isoformat :: string
  float_of_str :: "string \<Rightarrow> real option"
  fromisoformat :: "string \<Rightarrow> datetime option"
  fromtimestamp :: "real \<Rightarrow> error + datetime"
  hash_of :: "pyval \<Rightarrow> int"
  str_of :: "pyval \<Rightarrow> string"

text \<open>
  The conversion \<^verbatim>\<open>float(v)\<close>. An integer too large for a double raises
  \<^verbatim>\<open>OverflowError\<close>: that is one whose magnitude reaches \<open>2^1024 - 2^970\<close>, the
  midpoint above the largest double.
\<close>

definition float_overflow_bound :: int where
  "float_overflow_bound = 2 ^ 1024 - 2 ^ 970"

fun py_float :: "runtime \<Rightarrow> pyval \<Rightarrow> error + real" where
  "py_float rt PNone = Inl TypeError"
| "py_float rt (PBool b) = Inr (if b then 1 else 0)"
| "py_float rt (PInt i) =
     (if float_overflow_bound \<le> \<bar>i\<bar> then Inl OverflowError else Inr (of_int i))"
| "py_float rt (PFloat r) = Inr r"
| "py_float rt (PStr s) =
     (case float_of_str rt s of None \<Rightarrow> Inl ValueError | Some r \<Rightarrow> Inr r)"
| "py_float rt (PDatetime t) = Inl TypeError"
| "py_float rt (PList xs) = Inl TypeError"
| "py_float rt (PDict kvs) = Inl TypeError"

text \<open>Lists and dictionaries cannot be hashed: using one as a dictionary key raises.\<close>

fun py_hashable :: "pyval \<Rightarrow> bool" where
  "py_hashable (PList xs) = False"
| "py_hashable (PDict kvs) = False"
| "py_hashable v = True"

definition action_mappings :: "(string \<times> string) list" where
  "action_mappings =
     [(''stock_in'', ''inbound''), (''stock_out'', ''outbound''),
      (''adjustment'', ''adjustment''), (''transfer'', ''transfer'')]"

text \<open>
  \<^verbatim>\<open>self.action_mappings.get(action, action)\<close>: the lookup hashes the key first; a key
  that is not a string equals none of the keys.
\<close>

definition normalize_action :: "pyval \<Rightarrow> error + pyval" where
  "normalize_action action =
     (if \<not> py_hashable action then Inl TypeError
      else case action of
             PStr s \<Rightarrow> (case map_of action_mappings s of
                          None \<Rightarrow> Inr action
                        | Some n \<Rightarrow> Inr (PStr n))
           | _ \<Rightarrow> Inr action)"

text \<open>\<^verbatim>\<open>timestamp.replace('Z', '+00:00')\<close>.\<close>

definition replace_Z :: "string \<Rightarrow> string" where
  "replace_Z s = concat (map (\<lambda>c. if c = CHR ''Z'' then ''+00:00'' else [c]) s)"

text \<open>
  \<^verbatim>\<open>_parse_timestamp\<close>. A boolean is an instance of \<^verbatim>\<open>int\<close>. For a string the
  ISO format is tried first, then the number of seconds; only \<^verbatim>\<open>ValueError\<close> is
  caught on the way, so another exception of \<^verbatim>\<open>fromtimestamp\<close> leaves the function.
\<close>

definition parse_timestamp :: "runtime \<Rightarrow> pyval \<Rightarrow> error + datetime" where
  "parse_timestamp rt ts =
     (case ts of
        PDatetime t \<Rightarrow> Inr t
      | PBool b \<Rightarrow> fromtimestamp rt (if b then 1 else 0)
      | PInt i \<Rightarrow> fromtimestamp rt (of_int i)
      | PFloat r \<Rightarrow> fromtimestamp rt r
      | PStr s \<Rightarrow>
          (case fromisoformat rt (replace_Z s) of
             Some t \<Rightarrow> Inr t
           | None \<Rightarrow>
               (case float_of_str rt s of
                  None \<Rightarrow> Inr (now_utc rt)
                | Some x \<Rightarrow>
                    (case fromtimestamp rt x of
                       Inr t \<Rightarrow> Inr t
                     | Inl e \<Rightarrow> if e = ValueError then Inr (now_utc rt) else Inl e)))
      | _ \<Rightarrow> Inr (now_utc rt))"

definition get_shift :: "int \<Rightarrow> string" where
  "get_shift hour =
     (if 6 \<le> hour \<and> hour < 14 then ''morning''
      else if 14 \<le> hour \<and> hour < 22 then ''afternoon''
      else ''night'')"

definition get_business_context :: "datetime \<Rightarrow> pydict" where
  "get_business_context ts =
     (let hour = dt_hour ts; day_of_week = dt_weekday ts
      in [(''hour'', PInt hour),
          (''day_of_week'', PInt day_of_week),
          (''is_business_hours'', PBool (8 \<le> hour \<and> hour \<le> 18 \<and> day_of_week < 5)),
          (''is_weekend'', PBool (5 \<le> day_of_week)),
          (''shift'', PStr (get_shift hour))])"

text \<open>
  \<^verbatim>\<open>InventoryProcessor.process\<close>. Each assignment \<^verbatim>\<open>processed_data[k] = v\<close> is an
  update of the copy; the statements run in the order of the source, and an exception
  of any of them ends the call.
\<close>

definition process :: "runtime \<Rightarrow> pydict \<Rightarrow> pydict \<Rightarrow> error + pydict" where
  "process rt ev kafka_metadata =
     (let pd0 = AList.update ''processing''
                  (PDict [(''processed_at'', PStr (now_isoformat rt)),
                          (''processor'', PStr ''inventory_processor''),
                          (''kafka_metadata'', PDict kafka_metadata)]) ev
      in case (if dict_has pd0 ''action''
               then (case normalize_action (dict_get pd0 ''action'' PNone) of
                       Inl e \<Rightarrow> Inl e
                     | Inr n \<Rightarrow> Inr (AList.update ''normalized_action'' n pd0))
               else Inr pd0) of
           Inl e \<Rightarrow> Inl e
         | Inr pd1 \<Rightarrow>
        (case py_float rt (dict_get pd1 ''quantity'' (PInt 0)) of
           Inl e \<Rightarrow> Inl e
         | Inr q \<Rightarrow>
        (let pd2 = AList.update ''quantity_abs'' (PFloat \<bar>q\<bar>) pd1
         in case py_float rt (dict_get pd2 ''quantity'' (PInt 0)) of
           Inl e \<Rightarrow> Inl e
         | Inr quantity \<Rightarrow>
        (let pd3 = (if dict_get pd2 ''action'' PNone = PStr ''stock_out''
                    then AList.update ''quantity_normalized'' (PFloat (- \<bar>quantity\<bar>))
                           (AList.update ''quantity_direction'' (PStr ''negative'') pd2)
                    else AList.update ''quantity_normalized'' (PFloat \<bar>quantity\<bar>)
                           (AList.update ''quantity_direction'' (PStr ''positive'') pd2))
         in case parse_timestamp rt (dict_get pd3 ''timestamp'' PNone) of
           Inl e \<Rightarrow> Inl e
         | Inr ts \<Rightarrow>
        (let pd4 = AList.update ''timestamp_parsed'' (PDatetime ts) pd3;
             pd5 = AList.update ''business_context'' (PDict (get_business_context ts)) pd4
         in if dict_has pd5 ''unit_price''
            then (case py_float rt (dict_get pd5 ''unit_price'' PNone) of
                    Inl e \<Rightarrow> Inl e
                  | Inr unit_price \<Rightarrow>
                      Inr (AList.update ''total_value'' (PFloat (\<bar>q\<bar> * unit_price)) pd5))
            else Inr pd5)))))"

text \<open>
  A runtime for the examples: its parsers know the strings that the examples use, its
  clock stands at Monday 2024-03-11, 10:00 UTC, and its hash gives the item
  \<^verbatim>\<open>I1\<close> a multiple of 1000.
\<close>

definition monday_10h :: datetime where
  "monday_10h = \<lparr> dt_us = 63845748000000000, dt_hour = 10, dt_weekday = 0, dt_month = 3 \<rparr>"

definition example_runtime :: runtime where
  "example_runtime =
     \<lparr> now_utc = monday_10h,
       now_isoformat = ''2024-03-11T10:00:00+00:00'',
       float_of_str = (\<lambda>s. if s = ''12.5'' then Some 12.5 else None),
       fromisoformat =
         (\<lambda>s. if s = ''2024-03-11T10:00:00+00:00'' then Some monday_10h else None),
       fromtimestamp =
         (\<lambda>x. if x = 1710151200 then Inr monday_10h else Inl OverflowError),
       hash_of = (\<lambda>v. if v = PStr ''I1'' then 3000 else if v = PStr ''HV1'' then 1230 else 7),
       str_of = (\<lambda>v. ''?'') \<rparr>"

text \<open>When the call returns: the four conversions that can raise have all succeeded.\<close>

definition process_returns :: "runtime \<Rightarrow> pydict \<Rightarrow> bool" where
  "process_returns rt ev =
     ((dict_has ev ''action'' \<longrightarrow> py_hashable (dict_get ev ''action'' PNone)) \<and>
      (\<exists>q. py_float rt (dict_get ev ''quantity'' (PInt 0)) = Inr q) \<and>
      (\<exists>t. parse_timestamp rt (dict_get ev ''timestamp'' PNone) = Inr t) \<and>
      (dict_has ev ''unit_price'' \<longrightarrow>
         (\<exists>p. py_float rt (dict_get ev ''unit_price'' PNone) = Inr p)))"

text \<open>
  The stock-out and stock-in events of the scenarios of the specification, and the bus
  metadata of a message.
\<close>

definition stock_out_event :: pydict where
  "stock_out_event =
     [(''item_id'', PStr ''I1''), (''action'', PStr ''stock_out''), (''quantity'', PInt 10),
      (''timestamp'', PStr ''2024-03-11T10:00:00Z'')]"

definition stock_in_event :: pydict where
  "stock_in_event =
     [(''item_id'', PStr ''I1''), (''action'', PStr ''stock_in''), (''quantity'', PInt 50),
      (''unit_price'', PFloat 2), (''timestamp'', PStr ''2024-03-11T10:00:00Z'')]"

definition kafka_meta :: pydict where
  "kafka_meta = [(''topic'', PStr ''warehouse.inventory''), (''partition'', PInt 0),
     (''offset'', PInt 42)]"


section \<open>Numbers, equality and attribute access\<close>

text \<open>
  The number that a boolean, an integer or a float stands for in arithmetic and in
  comparisons; \<open>None\<close> for a value of another type.
\<close>

fun py_num :: "pyval \<Rightarrow> real option" where
  "py_num (PBool b) = Some (if b then 1 else 0)"
| "py_num (PInt i) = Some (of_int i)"
| "py_num (PFloat r) = Some r"
| "py_num v = None"

text \<open>
  \<^verbatim>\<open>a == b\<close>: numbers are equal when their values are, whatever their types; a
  number equals no value of another type. Other values are compared as they are written
  (two lists or dictionaries are equal here when they are the same term).
\<close>

definition py_eq :: "pyval \<Rightarrow> pyval \<Rightarrow> bool" where
  "py_eq a b =
     (case py_num a of
        Some x \<Rightarrow> (case py_num b of Some y \<Rightarrow> x = y | None \<Rightarrow> False)
      | None \<Rightarrow> (case py_num b of Some y \<Rightarrow> False | None \<Rightarrow> a = b))"

text \<open>
  \<^verbatim>\<open>v < c\<close> for a number \<open>c\<close>: \<^verbatim>\<open>TypeError\<close> when \<open>v\<close> is not a number.
\<close>

definition py_less_num :: "pyval \<Rightarrow> real \<Rightarrow> error + bool" where
  "py_less_num v c = (case py_num v of None \<Rightarrow> Inl TypeError | Some x \<Rightarrow> Inr (x < c))"

text \<open>
  The method call \<^verbatim>\<open>v.get(k, default)\<close>: \<^verbatim>\<open>AttributeError\<close> when \<open>v\<close> is not a
  dictionary.
\<close>

definition py_get :: "pyval \<Rightarrow> string \<Rightarrow> pyval \<Rightarrow> error + pyval" where
  "py_get v k dflt = (case v of PDict d \<Rightarrow> Inr (dict_get d k dflt) | _ \<Rightarrow> Inl AttributeError)"

text \<open>The text an f-string puts for a value: a string stands for itself.\<close>

definition py_format :: "runtime \<Rightarrow> pyval \<Rightarrow> string" where
  "py_format rt v = (case v of PStr s \<Rightarrow> s | _ \<Rightarrow> str_of rt v)"

section \<open>Enricher\<close>

text \<open>
  \<^verbatim>\<open>enrichers/inventory_enricher.py\<close>. The shared cache is a key-value store; an
  entry of the store is the value that \<^verbatim>\<open>json.loads\<close> gives its text (a key whose
  text is empty or does not parse behaves as an absent key: the code falls through to
  the in-memory cache in both cases). \<open>get_raises\<close> and \<open>setex_raises\<close> say whether
  the calls of the client raise; the code catches every exception of them.
\<close>

record redis =
  redis_store :: "(string \<times> pyval) list"
  get_raises :: bool
  setex_raises :: bool

text \<open>
  The in-memory caches are dictionaries keyed by the id; a key is found by \<^verbatim>\<open>==\<close>.
\<close>

record InventoryEnricher =
  redis_client :: "redis option"
  item_cache :: "(pyval \<times> pyval) list"
  location_cache :: "(pyval \<times> pyval) list"

fun cache_lookup :: "(pyval \<times> pyval) list \<Rightarrow> pyval \<Rightarrow> pyval option" where
  "cache_lookup [] k = None"
| "cache_lookup ((k', v) # rest) k = (if py_eq k' k then Some v else cache_lookup rest k)"

definition InventoryEnricher_init :: "redis option \<Rightarrow> InventoryEnricher" where
  "InventoryEnricher_init r = \<lparr> redis_client = r, item_cache = [], location_cache = [] \<rparr>"

definition generate_mock_item_details :: "runtime \<Rightarrow> pyval \<Rightarrow> pydict" where
  "generate_mock_item_details rt item_id =
     (let hash_val = hash_of rt item_id mod 1000;
          categories = [''Electronics'', ''Clothing'', ''Food'', ''Tools'', ''Books''];
          suppliers = [''Supplier_A'', ''Supplier_B'', ''Supplier_C'', ''Supplier_D'']
      in [(''name'', PStr (''Item_'' @ py_format rt item_id)),
          (''category'', PStr (categories ! nat (hash_val mod 5))),
          (''supplier'', PStr (suppliers ! nat (hash_val mod 4))),
          (''unit_cost'', PInt (10 + hash_val mod 100)),
          (''weight'', PFloat ((1 + of_int (hash_val mod 50)) / 10)),
          (''perishable'', PBool (hash_val mod 4 = 0)),
          (''high_value'', PBool (hash_val mod 10 = 0)),
          (''reorder_point'', PInt (50 + hash_val mod 100)),
          (''max_stock'', PInt (500 + hash_val mod 1000))])"

definition generate_mock_location_details :: "runtime \<Rightarrow> pyval \<Rightarrow> pydict" where
  "generate_mock_location_details rt location_id =
     (let hash_val = hash_of rt location_id mod 100;
          zones = [''A'', ''B'', ''C'', ''D''];
          types = [''storage'', ''picking'', ''shipping'', ''receiving'']
      in [(''zone'', PStr (zones ! nat (hash_val mod 4))),
          (''type'', PStr (types ! nat (hash_val mod 4))),
          (''capacity'', PInt (1000 + hash_val mod 5000)),
          (''temperature_controlled'', PBool (hash_val mod 5 = 0)),
          (''automated'', PBool (hash_val mod 3 = 0))])"

text \<open>
  The first part of \<^verbatim>\<open>_get_item_details\<close>: the value found in the shared cache, if
  there is a client, its \<^verbatim>\<open>get\<close> does not raise and the key has an entry.
\<close>

definition redis_cached :: "InventoryEnricher \<Rightarrow> string \<Rightarrow> pyval option" where
  "redis_cached en key =
     (case redis_client en of
        None \<Rightarrow> None
      | Some r \<Rightarrow> if get_raises r then None else map_of (redis_store r) key)"

text \<open>The last part: \<^verbatim>\<open>setex\<close> on the shared cache, whose exception is caught.\<close>

definition redis_setex :: "InventoryEnricher \<Rightarrow> string \<Rightarrow> pyval \<Rightarrow> InventoryEnricher" where
  "redis_setex en key v =
     (case redis_client en of
        None \<Rightarrow> en
      | Some r \<Rightarrow>
          if setex_raises r then en
          else en\<lparr>redis_client := Some (r\<lparr>redis_store := AList.update key v (redis_store r)\<rparr>)\<rparr>)"

text \<open>
  \<^verbatim>\<open>_get_item_details\<close>: the details (or \<^verbatim>\<open>None\<close>) and the enricher after the
  call. The membership test on the in-memory cache hashes the id, which raises
  \<^verbatim>\<open>TypeError\<close> for a list or a dictionary.
\<close>

definition get_item_details ::
  "runtime \<Rightarrow> InventoryEnricher \<Rightarrow> pyval \<Rightarrow> error + pyval \<times> InventoryEnricher" where
  "get_item_details rt en item_id =
     (if \<not> py_truthy item_id then Inr (PNone, en)
      else case redis_cached en (''item:'' @ py_format rt item_id) of
        Some cached \<Rightarrow> Inr (cached, en)
      | None \<Rightarrow>
          if \<not> py_hashable item_id then Inl TypeError
          else case cache_lookup (item_cache en) item_id of
            Some details \<Rightarrow> Inr (details, en)
          | None \<Rightarrow>
              (let mock_details = PDict (generate_mock_item_details rt item_id);
                   en1 = en\<lparr>item_cache := item_cache en @ [(item_id, mock_details)]\<rparr>
               in Inr (mock_details,
                       redis_setex en1 (''item:'' @ py_format rt item_id) mock_details)))"

definition get_location_details ::
  "runtime \<Rightarrow> InventoryEnricher \<Rightarrow> pyval \<Rightarrow> error + pyval \<times> InventoryEnricher" where
  "get_location_details rt en location_id =
     (if \<not> py_truthy location_id then Inr (PNone, en)
      else if \<not> py_hashable location_id then Inl TypeError
      else case cache_lookup (location_cache en) location_id of
        Some details \<Rightarrow> Inr (details, en)
      | None \<Rightarrow>
          (let mock_details = PDict (generate_mock_location_details rt location_id)
           in Inr (mock_details,
                   en\<lparr>location_cache := location_cache en @ [(location_id, mock_details)]\<rparr>)))"

definition get_volume_category :: "pydict \<Rightarrow> error + string" where
  "get_volume_category ev =
     (let quantity = dict_get ev ''quantity_abs'' (PInt 0)
      in case py_less_num quantity 10 of
           Inl e \<Rightarrow> Inl e
         | Inr lt10 \<Rightarrow>
             if lt10 then Inr ''low''
             else case py_less_num quantity 100 of
               Inl e \<Rightarrow> Inl e
             | Inr lt100 \<Rightarrow>
                 if lt100 then Inr ''medium''
                 else case py_less_num quantity 1000 of
                   Inl e \<Rightarrow> Inl e
                 | Inr lt1000 \<Rightarrow> if lt1000 then Inr ''high'' else Inr ''bulk'')"

definition get_value_category :: "pydict \<Rightarrow> error + string" where
  "get_value_category ev =
     (let total_value = dict_get ev ''total_value'' PNone
      in if \<not> py_truthy total_value then Inr ''unknown''
         else case py_less_num total_value 100 of
           Inl e \<Rightarrow> Inl e
         | Inr lt100 \<Rightarrow>
             if lt100 then Inr ''low''
             else case py_less_num total_value 1000 of
               Inl e \<Rightarrow> Inl e
             | Inr lt1000 \<Rightarrow>
                 if lt1000 then Inr ''medium''
                 else case py_less_num total_value 10000 of
                   Inl e \<Rightarrow> Inl e
                 | Inr lt10000 \<Rightarrow> if lt10000 then Inr ''high'' else Inr ''critical'')"

definition get_urgency_level :: "pydict \<Rightarrow> error + string" where
  "get_urgency_level ev =
     (let item_details = dict_get ev ''item_details'' (PDict [])
      in case py_get item_details ''perishable'' PNone of
           Inl e \<Rightarrow> Inl e
         | Inr perishable \<Rightarrow>
             if py_truthy perishable then Inr ''high''
             else case py_get item_details ''high_value'' PNone of
               Inl e \<Rightarrow> Inl e
             | Inr high_value \<Rightarrow>
                 if py_truthy high_value then Inr ''high''
                 else if py_eq (dict_get ev ''action'' PNone) (PStr ''stock_out'')
                 then Inr ''medium''
                 else Inr ''low'')"

text \<open>
  \<^verbatim>\<open>_classify_inventory_event\<close>: the values of the dictionary are computed in the
  order in which they are written.
\<close>

definition classify_inventory_event :: "pydict \<Rightarrow> error + pydict" where
  "classify_inventory_event ev =
     (case get_volume_category ev of
        Inl e \<Rightarrow> Inl e
      | Inr volume_category \<Rightarrow>
     (case get_value_category ev of
        Inl e \<Rightarrow> Inl e
      | Inr value_category \<Rightarrow>
     (case get_urgency_level ev of
        Inl e \<Rightarrow> Inl e
      | Inr urgency \<Rightarrow>
          Inr [(''event_type'', dict_get ev ''normalized_action'' (PStr ''unknown'')),
               (''volume_category'', PStr volume_category),
               (''value_category'', PStr value_category),
               (''urgency'', PStr urgency)])))"

text \<open>
  \<^verbatim>\<open>_assess_risk\<close>: four checks in turn, each adding its factor and its weight.
\<close>

definition assess_risk :: "pydict \<Rightarrow> error + pydict" where
  "assess_risk ev =
     (case py_get (dict_get ev ''item_details'' (PDict [])) ''high_value'' PNone of
        Inl e \<Rightarrow> Inl e
      | Inr high_value \<Rightarrow>
     (let f1 = (if py_truthy high_value then [''high_value_item''] else []);
          s1 = (if py_truthy high_value then 3 else 0 :: int)
      in case py_get (dict_get ev ''classification'' (PDict [])) ''volume_category'' PNone of
        Inl e \<Rightarrow> Inl e
      | Inr volume_category \<Rightarrow>
     (let bulk = py_eq volume_category (PStr ''bulk'');
          f2 = (if bulk then f1 @ [''bulk_transaction''] else f1);
          s2 = (if bulk then s1 + 2 else s1)
      in case py_get (dict_get ev ''business_context'' (PDict [])) ''is_business_hours'' PNone of
        Inl e \<Rightarrow> Inl e
      | Inr is_business_hours \<Rightarrow>
     (let after = \<not> py_truthy is_business_hours;
          f3 = (if after then f2 @ [''after_hours''] else f2);
          s3 = (if after then s2 + 1 else s2)
      in case py_get (dict_get ev ''item_details'' (PDict [])) ''perishable'' PNone of
        Inl e \<Rightarrow> Inl e
      | Inr perishable \<Rightarrow>
     (let risk_factors = (if py_truthy perishable then f3 @ [''perishable_item''] else f3);
          risk_score = (if py_truthy perishable then s3 + 1 else s3);
          risk_level = (if 5 \<le> risk_score then ''high''
                        else if 3 \<le> risk_score then ''medium'' else ''low'')
      in Inr [(''score'', PInt risk_score),
              (''level'', PStr risk_level),
              (''factors'', PList (map PStr risk_factors))])))))"

definition get_seasonal_context :: "pydict \<Rightarrow> error + pydict" where
  "get_seasonal_context ev =
     (let ts = dict_get ev ''timestamp_parsed'' PNone
      in if \<not> py_truthy ts then Inr []
         else case ts of
           PDatetime t \<Rightarrow>
             (let month = dt_month t;
                  season = (if month \<in> set [12, 1, 2] then ''winter''
                            else if month \<in> set [3, 4, 5] then ''spring''
                            else if month \<in> set [6, 7, 8] then ''summer''
                            else ''fall'')
              in case py_get (dict_get ev ''item_details'' (PDict [])) ''category'' (PStr '''') of
                   Inl e \<Rightarrow> Inl e
                 | Inr category \<Rightarrow>
                     (let seasonal_demand =
                            (if season = ''winter'' \<and> py_eq category (PStr ''Clothing'')
                             then ''high''
                             else if season = ''summer'' \<and> py_eq category (PStr ''Electronics'')
                             then ''high''
                             else ''normal'')
                      in Inr [(''season'', PStr season),
                              (''month'', PInt month),
                              (''seasonal_demand'', PStr seasonal_demand)]))
         | _ \<Rightarrow> Inl AttributeError)"

text \<open>
  \<^verbatim>\<open>InventoryEnricher.enrich\<close>: the enriched copy of the event and the enricher with
  its caches after the call. Both lookups take their id from the event as given.
\<close>

definition enrich ::
  "runtime \<Rightarrow> InventoryEnricher \<Rightarrow> pydict \<Rightarrow> error + pydict \<times> InventoryEnricher" where
  "enrich rt en ev =
     (case get_item_details rt en (dict_get ev ''item_id'' PNone) of
        Inl e \<Rightarrow> Inl e
      | Inr (item_details, en1) \<Rightarrow>
     (let ed1 = (if py_truthy item_details
                 then AList.update ''item_details'' item_details ev else ev)
      in case get_location_details rt en1 (dict_get ev ''location_id'' PNone) of
        Inl e \<Rightarrow> Inl e
      | Inr (location_details, en2) \<Rightarrow>
     (let ed2 = (if py_truthy location_details
                 then AList.update ''location_details'' location_details ed1 else ed1)
      in case classify_inventory_event ed2 of
        Inl e \<Rightarrow> Inl e
      | Inr classification \<Rightarrow>
     (let ed3 = AList.update ''classification'' (PDict classification) ed2
      in case assess_risk ed3 of
        Inl e \<Rightarrow> Inl e
      | Inr risk_assessment \<Rightarrow>
     (let ed4 = AList.update ''risk_assessment'' (PDict risk_assessment) ed3
      in case get_seasonal_context ed4 of
        Inl e \<Rightarrow> Inl e
      | Inr seasonal_context \<Rightarrow>
          Inr (AList.update ''seasonal_context'' (PDict seasonal_context) ed4, en2))))))"

text \<open>
  The stock-out event as the processor returns it and as the enricher returns it, and
  an enricher with a shared cache before and after it has looked up the item
  \<^verbatim>\<open>I1\<close>.
\<close>

definition processed_stock_out :: pydict where
  "processed_stock_out = stock_out_event @
       [(''processing'', PDict [(''processed_at'', PStr ''2024-03-11T10:00:00+00:00''),
                          (''processor'', PStr ''inventory_processor''),
                          (''kafka_metadata'', PDict kafka_meta)]),
        (''normalized_action'', PStr ''outbound''),
        (''quantity_abs'', PFloat 10),
        (''quantity_direction'', PStr ''negative''),
        (''quantity_normalized'', PFloat (- 10)),
        (''timestamp_parsed'', PDatetime monday_10h),
        (''business_context'', PDict [(''hour'', PInt 10), (''day_of_week'', PInt 0),
            (''is_business_hours'', PBool True), (''is_weekend'', PBool False),
            (''shift'', PStr ''morning'')])]"

definition item_I1_details :: pyval where
  "item_I1_details =
     PDict [(''name'', PStr ''Item_I1''), (''category'', PStr ''Electronics''),
            (''supplier'', PStr ''Supplier_A''), (''unit_cost'', PInt 10),
            (''weight'', PFloat (1 / 10)), (''perishable'', PBool True),
            (''high_value'', PBool True), (''reorder_point'', PInt 50),
            (''max_stock'', PInt 500)]"

definition enriched_stock_out :: pydict where
  "enriched_stock_out = processed_stock_out @
     [(''item_details'', item_I1_details),
      (''classification'',
         PDict [(''event_type'', PStr ''outbound''), (''volume_category'', PStr ''medium''),
                (''value_category'', PStr ''unknown''), (''urgency'', PStr ''high'')]),
      (''risk_assessment'',
         PDict [(''score'', PInt 4), (''level'', PStr ''medium''),
                (''factors'', PList [PStr ''high_value_item'', PStr ''perishable_item''])]),
      (''seasonal_context'',
         PDict [(''season'', PStr ''spring''), (''month'', PInt 3),
                (''seasonal_demand'', PStr ''normal'')])]"

definition fresh_enricher :: InventoryEnricher where
  "fresh_enricher =
     InventoryEnricher_init
       (Some \<lparr>redis_store = [], get_raises = False, setex_raises = False\<rparr>)"

definition warm_enricher :: InventoryEnricher where
  "warm_enricher =
     \<lparr> redis_client =
         Some \<lparr>redis_store = [(''item:I1'', item_I1_details)],
               get_raises = False, setex_raises = False\<rparr>,
       item_cache = [(PStr ''I1'', item_I1_details)],
       location_cache = [] \<rparr>"


section \<open>Arithmetic and iteration on Python values\<close>

text \<open>
  \<^verbatim>\<open>a + b\<close> where one operand is known to be a number: two integers (booleans count
  as 0 and 1) give an integer, a float with a number gives a float, and a number with
  anything else raises \<^verbatim>\<open>TypeError\<close>.
\<close>

fun py_int :: "pyval \<Rightarrow> int option" where
  "py_int (PBool b) = Some (if b then 1 else 0)"
| "py_int (PInt i) = Some i"
| "py_int v = None"

definition py_add :: "pyval \<Rightarrow> pyval \<Rightarrow> error + pyval" where
  "py_add a b =
     (case (py_int a, py_int b) of
        (Some i, Some j) \<Rightarrow> Inr (PInt (i + j))
      | _ \<Rightarrow> (case (py_num a, py_num b) of
                (Some x, Some y) \<Rightarrow> Inr (PFloat (x + y))
              | _ \<Rightarrow> Inl TypeError))"

text \<open>\<^verbatim>\<open>sum(xs)\<close>: the additions start from the integer 0 and run from the left.\<close>

fun py_sum_from :: "pyval \<Rightarrow> pyval list \<Rightarrow> error + pyval" where
  "py_sum_from acc [] = Inr acc"
| "py_sum_from acc (x # xs) =
     (case py_add acc x of Inl e \<Rightarrow> Inl e | Inr acc' \<Rightarrow> py_sum_from acc' xs)"

definition py_sum :: "pyval list \<Rightarrow> error + pyval" where
  "py_sum xs = py_sum_from (PInt 0) xs"

definition py_abs :: "pyval \<Rightarrow> error + pyval" where
  "py_abs v =
     (case py_int v of
        Some i \<Rightarrow> Inr (PInt \<bar>i\<bar>)
      | None \<Rightarrow> (case v of PFloat r \<Rightarrow> Inr (PFloat \<bar>r\<bar>) | _ \<Rightarrow> Inl TypeError))"

text \<open>
  A list comprehension \<^verbatim>\<open>[f(d) for d in xs if c(d)]\<close> where the condition or the
  element can raise: the entries are visited from the left and the first exception ends
  the comprehension.
\<close>

fun comprehension ::
  "('a \<Rightarrow> error + bool) \<Rightarrow> ('a \<Rightarrow> error + 'b) \<Rightarrow> 'a list \<Rightarrow> error + 'b list" where
  "comprehension c f [] = Inr []"
| "comprehension c f (d # ds) =
     (case c d of
        Inl e \<Rightarrow> Inl e
      | Inr keep \<Rightarrow>
          if keep
          then (case f d of
                  Inl e \<Rightarrow> Inl e
                | Inr y \<Rightarrow> (case comprehension c f ds of
                             Inl e \<Rightarrow> Inl e
                           | Inr ys \<Rightarrow> Inr (y # ys)))
          else comprehension c f ds)"

text \<open>
  Iteration over a value: the elements of a list, the characters of a string, the keys
  of a dictionary; \<^verbatim>\<open>TypeError\<close> for a value that is not iterable.
\<close>

definition py_iter :: "pyval \<Rightarrow> error + pyval list" where
  "py_iter v =
     (case v of
        PList xs \<Rightarrow> Inr xs
      | PStr s \<Rightarrow> Inr (map (\<lambda>c. PStr [c]) s)
      | PDict kvs \<Rightarrow> Inr (map (\<lambda>kv. PStr (fst kv)) kvs)
      | _ \<Rightarrow> Inl TypeError)"

text \<open>
  \<^verbatim>\<open>t - timedelta(hours=1)\<close> and \<^verbatim>\<open>t > w\<close> for a datetime \<open>w\<close>:
  \<^verbatim>\<open>TypeError\<close> when \<open>t\<close> is not a datetime.
\<close>

definition one_hour_before :: "pyval \<Rightarrow> error + int" where
  "one_hour_before v =
     (case v of PDatetime t \<Rightarrow> datetime_sub (dt_us t) 3600000000 | _ \<Rightarrow> Inl TypeError)"

definition py_later :: "pyval \<Rightarrow> int \<Rightarrow> error + bool" where
  "py_later v w = (case v of PDatetime t \<Rightarrow> Inr (w < dt_us t) | _ \<Rightarrow> Inl TypeError)"

text \<open>\<^verbatim>\<open>numpy.mean\<close> and \<^verbatim>\<open>numpy.std\<close> (the population standard deviation).\<close>

definition np_mean :: "real list \<Rightarrow> real" where
  "np_mean xs = sum_list xs / real (length xs)"

definition np_std :: "real list \<Rightarrow> real" where
  "np_std xs = sqrt (sum_list (map (\<lambda>x. (x - np_mean xs)\<^sup>2) xs) / real (length xs))"

section \<open>Anomaly detector\<close>

text \<open>
  \<^verbatim>\<open>anomaly_detection/base_detector.py\<close> and
  \<^verbatim>\<open>anomaly_detection/inventory_anomaly_detector.py\<close>. The field \<open>anomaly_severity\<close>
  is the attribute \<^verbatim>\<open>severity\<close> of an \<^verbatim>\<open>AnomalyResult\<close>, and \<open>sample_size\<close> the
  attribute \<^verbatim>\<open>window_size\<close> of the detector.
\<close>

record AnomalyResult =
  is_anomaly :: bool
  confidence :: real
  anomaly_type :: string
  details :: pydict
  anomaly_severity :: string

record InventoryAnomalyDetector =
  sample_size :: nat
  data_window :: "pydict list"

text \<open>The thresholds that \<^verbatim>\<open>__init__\<close> sets.\<close>

definition z_score_threshold :: real where "z_score_threshold = 3"
definition negative_stock_threshold :: real where "negative_stock_threshold = - 10"
definition rapid_depletion_threshold :: real where "rapid_depletion_threshold = 8 / 10"
definition unusual_location_threshold :: real where "unusual_location_threshold = 95 / 100"

definition InventoryAnomalyDetector_init :: "nat \<Rightarrow> InventoryAnomalyDetector" where
  "InventoryAnomalyDetector_init n = \<lparr> sample_size = n, data_window = [] \<rparr>"

text \<open>
  \<^verbatim>\<open>_add_to_window\<close>: the window is a deque with \<^verbatim>\<open>maxlen\<close>; appending to a full
  deque drops entries from the left end.
\<close>

definition add_to_window :: "InventoryAnomalyDetector \<Rightarrow> pydict \<Rightarrow> InventoryAnomalyDetector" where
  "add_to_window det ev =
     det\<lparr>data_window :=
           drop (length (data_window det @ [ev]) - sample_size det) (data_window det @ [ev])\<rparr>"

definition matches_pattern :: "pydict \<Rightarrow> pydict \<Rightarrow> bool" where
  "matches_pattern d1 d2 =
     (py_eq (dict_get d1 ''action'' PNone) (dict_get d2 ''action'' PNone) \<and>
      py_eq (dict_get d1 ''item_id'' PNone) (dict_get d2 ''item_id'' PNone))"

definition calculate_z_score :: "real \<Rightarrow> real list \<Rightarrow> real" where
  "calculate_z_score v historical_values =
     (if length historical_values < 3 then 0
      else let mean = np_mean historical_values; std = np_std historical_values
           in if std = 0 then 0 else \<bar>(v - mean) / std\<bar>)"

text \<open>\<^verbatim>\<open>_detect_volume_anomaly\<close> with its default field \<^verbatim>\<open>quantity_abs\<close>.\<close>

definition detect_volume_anomaly ::
  "runtime \<Rightarrow> InventoryAnomalyDetector \<Rightarrow> pydict \<Rightarrow> error + AnomalyResult option" where
  "detect_volume_anomaly rt det ev =
     (if dict_get ev ''quantity_abs'' PNone = PNone then Inr None
      else case py_float rt (dict_get ev ''quantity_abs'' PNone) of
        Inl e \<Rightarrow> Inl e
      | Inr current_value \<Rightarrow>
     (case comprehension
             (\<lambda>d. Inr (matches_pattern d ev \<and> dict_get d ''quantity_abs'' PNone \<noteq> PNone))
             (\<lambda>d. py_float rt (dict_get d ''quantity_abs'' (PInt 0)))
             (data_window det) of
        Inl e \<Rightarrow> Inl e
      | Inr historical_values \<Rightarrow>
          if length historical_values < 5 then Inr None
          else let z_score = calculate_z_score current_value historical_values
               in if z_score_threshold < z_score
                  then Inr (Some
                    \<lparr> is_anomaly = True,
                      confidence = min (z_score / z_score_threshold) 1,
                      anomaly_type = ''volume_anomaly'',
                      details =
                        [(''z_score'', PFloat z_score),
                         (''current_value'', PFloat current_value),
                         (''historical_mean'', PFloat (np_mean historical_values)),
                         (''historical_std'', PFloat (np_std historical_values))],
                      anomaly_severity = (if 5 < z_score then ''high'' else ''medium'') \<rparr>)
                  else Inr None))"

text \<open>
  \<^verbatim>\<open>_get_after_hours_frequency\<close>: the share of the window's events of one action
  that lie outside business hours, and 0.5 when the window has no event of the action.
\<close>

definition get_after_hours_frequency ::
  "InventoryAnomalyDetector \<Rightarrow> pyval \<Rightarrow> error + real" where
  "get_after_hours_frequency det activity_type =
     (let same = filter (\<lambda>d. py_eq (dict_get d ''action'' PNone) activity_type)
                   (data_window det)
      in if length same = 0 then Inr (1 / 2)
         else case comprehension
                     (\<lambda>d. case py_get (dict_get d ''business_context'' (PDict []))
                                  ''is_business_hours'' (PBool True) of
                             Inl e \<Rightarrow> Inl e
                           | Inr b \<Rightarrow> Inr (\<not> py_truthy b))
                     (\<lambda>d. Inr d) same of
                Inl e \<Rightarrow> Inl e
              | Inr after_hours \<Rightarrow> Inr (real (length after_hours) / real (length same)))"

definition detect_time_based_anomaly ::
  "InventoryAnomalyDetector \<Rightarrow> pydict \<Rightarrow> error + AnomalyResult option" where
  "detect_time_based_anomaly det ev =
     (let ts = dict_get ev ''timestamp_parsed'' PNone
      in if \<not> py_truthy ts then Inr None
         else case ts of
           PDatetime t \<Rightarrow>
             (case py_get (dict_get ev ''business_context'' (PDict []))
                     ''is_business_hours'' PNone of
                Inl e \<Rightarrow> Inl e
              | Inr business \<Rightarrow>
                  if py_truthy business then Inr None
                  else case get_after_hours_frequency det
                              (dict_get ev ''action'' (PStr ''unknown'')) of
                    Inl e \<Rightarrow> Inl e
                  | Inr historical_after_hours \<Rightarrow>
                      if historical_after_hours < 1 / 10
                      then Inr (Some
                        \<lparr> is_anomaly = True,
                          confidence = 7 / 10,
                          anomaly_type = ''unusual_timing'',
                          details =
                            [(''reason'', PStr ''activity_after_hours''),
                             (''hour'', PInt (dt_hour t)),
                             (''expected_frequency'', PFloat historical_after_hours)],
                          anomaly_severity = ''medium'' \<rparr>)
                      else Inr None)
         | _ \<Rightarrow> Inl AttributeError)"

text \<open>\<^verbatim>\<open>_get_historical_frequencies\<close>: the list the source returns for every key.\<close>

definition get_historical_frequencies :: "real list" where
  "get_historical_frequencies = [5, 7, 3, 8, 6, 4, 9, 2, 6, 7]"

text \<open>
  The events of the window that match a condition and lie in the last hour: the
  conditions \<^verbatim>\<open>... and d.get("timestamp_parsed") and d.get("timestamp_parsed") >
  recent_window\<close> of three comprehensions.
\<close>

definition in_last_hour :: "int \<Rightarrow> pydict \<Rightarrow> error + bool" where
  "in_last_hour recent_window d =
     (let ts = dict_get d ''timestamp_parsed'' PNone
      in if \<not> py_truthy ts then Inr False else py_later ts recent_window)"

definition detect_frequency_anomaly ::
  "InventoryAnomalyDetector \<Rightarrow> pydict \<Rightarrow> error + AnomalyResult option" where
  "detect_frequency_anomaly det ev =
     (let current_time = dict_get ev ''timestamp_parsed'' PNone
      in if \<not> py_truthy current_time then Inr None
         else case one_hour_before current_time of
           Inl e \<Rightarrow> Inl e
         | Inr recent_window \<Rightarrow>
        (case comprehension
                (\<lambda>d. if matches_pattern d ev then in_last_hour recent_window d else Inr False)
                (\<lambda>d. Inr d) (data_window det) of
           Inl e \<Rightarrow> Inl e
         | Inr recent \<Rightarrow>
             (let recent_count = length recent;
                  historical_hourly_counts = get_historical_frequencies
              in if length historical_hourly_counts < 5 then Inr None
                 else let z_score = calculate_z_score (real recent_count)
                                      historical_hourly_counts
                      in if z_score_threshold < z_score
                         then Inr (Some
                           \<lparr> is_anomaly = True,
                             confidence = min (z_score / z_score_threshold) 1,
                             anomaly_type = ''frequency_anomaly'',
                             details =
                               [(''recent_count'', PInt (int recent_count)),
                                (''z_score'', PFloat z_score),
                                (''historical_mean'',
                                   PFloat (np_mean historical_hourly_counts))],
                             anomaly_severity = ''medium'' \<rparr>)
                         else Inr None)))"

text \<open>The value of a number, as a real.\<close>

definition py_real :: "pyval \<Rightarrow> real" where
  "py_real v = (case py_num v of None \<Rightarrow> 0 | Some x \<Rightarrow> x)"

text \<open>
  \<^verbatim>\<open>_get_current_stock_level\<close>: the baseline from the hash of the item id plus the
  signed quantities of the item in the window, and \<^verbatim>\<open>max(current_stock, 0)\<close>, which
  is the integer 0 when the stock is negative.
\<close>

definition get_current_stock_level ::
  "runtime \<Rightarrow> InventoryAnomalyDetector \<Rightarrow> pyval \<Rightarrow> error + pyval" where
  "get_current_stock_level rt det item_id =
     (let stock_changes =
            map (\<lambda>d. dict_get d ''quantity_normalized'' (PInt 0))
              (filter (\<lambda>d. py_eq (dict_get d ''item_id'' PNone) item_id) (data_window det))
      in if \<not> py_hashable item_id then Inl TypeError
         else let baseline_stock = hash_of rt item_id mod 1000 + 100
              in case py_sum stock_changes of
                   Inl e \<Rightarrow> Inl e
                 | Inr changes_sum \<Rightarrow>
                     (case py_add (PInt baseline_stock) changes_sum of
                        Inl e \<Rightarrow> Inl e
                      | Inr current_stock \<Rightarrow>
                          if py_real current_stock < 0 then Inr (PInt 0)
                          else Inr current_stock))"

definition detect_negative_stock ::
  "runtime \<Rightarrow> InventoryAnomalyDetector \<Rightarrow> pydict \<Rightarrow> error + AnomalyResult option" where
  "detect_negative_stock rt det ev =
     (let action = dict_get ev ''action'' PNone;
          quantity = dict_get ev ''quantity_normalized'' (PInt 0);
          item_id = dict_get ev ''item_id'' PNone
      in if \<not> py_eq action (PStr ''stock_out'') then Inr None
         else case get_current_stock_level rt det item_id of
           Inl e \<Rightarrow> Inl e
         | Inr current_stock \<Rightarrow>
        (case py_add current_stock quantity of
           Inl e \<Rightarrow> Inl e
         | Inr projected_stock \<Rightarrow>
             if py_real projected_stock < negative_stock_threshold
             then (case py_abs quantity of
                     Inl e \<Rightarrow> Inl e
                   | Inr transaction_quantity \<Rightarrow>
                       Inr (Some
                         \<lparr> is_anomaly = True,
                           confidence = 9 / 10,
                           anomaly_type = ''negative_stock_risk'',
                           details =
                             [(''current_stock'', current_stock),
                              (''transaction_quantity'', transaction_quantity),
                              (''projected_stock'', projected_stock),
                              (''item_id'', item_id)],
                           anomaly_severity = ''high'' \<rparr>))
             else Inr None))"

definition detect_rapid_depletion ::
  "runtime \<Rightarrow> InventoryAnomalyDetector \<Rightarrow> pydict \<Rightarrow> error + AnomalyResult option" where
  "detect_rapid_depletion rt det ev =
     (let item_id = dict_get ev ''item_id'' PNone;
          current_time = dict_get ev ''timestamp_parsed'' PNone
      in if \<not> py_truthy current_time
            \<or> \<not> py_eq (dict_get ev ''action'' PNone) (PStr ''stock_out'')
         then Inr None
         else case one_hour_before current_time of
           Inl e \<Rightarrow> Inl e
         | Inr recent_window \<Rightarrow>
        (case comprehension
                (\<lambda>d. if py_eq (dict_get d ''item_id'' PNone) item_id
                         \<and> py_eq (dict_get d ''action'' PNone) (PStr ''stock_out'')
                      then in_last_hour recent_window d else Inr False)
                (\<lambda>d. Inr (dict_get d ''quantity_abs'' (PInt 0)))
                (data_window det) of
           Inl e \<Rightarrow> Inl e
         | Inr recent_depletions \<Rightarrow>
        (case py_sum recent_depletions of
           Inl e \<Rightarrow> Inl e
         | Inr total_depleted \<Rightarrow>
        (case get_current_stock_level rt det item_id of
           Inl e \<Rightarrow> Inl e
         | Inr current_stock \<Rightarrow>
             if 0 < py_real current_stock
             then (let depletion_rate =
                         py_real total_depleted / py_real current_stock
                   in if rapid_depletion_threshold < depletion_rate
                      then Inr (Some
                        \<lparr> is_anomaly = True,
                          confidence = min depletion_rate 1,
                          anomaly_type = ''rapid_stock_depletion'',
                          details =
                            [(''depletion_rate'', PFloat depletion_rate),
                             (''total_depleted_1h'', total_depleted),
                             (''current_stock'', current_stock),
                             (''transaction_count'', PInt (int (length recent_depletions)))],
                          anomaly_severity = ''high'' \<rparr>)
                      else Inr None)
             else Inr None))))"

text \<open>
  The dictionary \<^verbatim>\<open>location_frequency\<close>: a count for every location, in the order
  in which the locations first occur; a location that cannot be hashed raises.
\<close>

fun count_up :: "(pyval \<times> int) list \<Rightarrow> pyval \<Rightarrow> (pyval \<times> int) list" where
  "count_up [] loc = [(loc, 1)]"
| "count_up ((k, n) # rest) loc =
     (if py_eq k loc then (k, n + 1) # rest else (k, n) # count_up rest loc)"

fun count_locations :: "(pyval \<times> int) list \<Rightarrow> pyval list \<Rightarrow> error + (pyval \<times> int) list" where
  "count_locations freq [] = Inr freq"
| "count_locations freq (loc # locs) =
     (if \<not> py_hashable loc then Inl TypeError
      else count_locations (count_up freq loc) locs)"

fun count_of :: "(pyval \<times> int) list \<Rightarrow> pyval \<Rightarrow> int" where
  "count_of [] loc = 0"
| "count_of ((k, n) # rest) loc = (if py_eq k loc then n else count_of rest loc)"

definition detect_unusual_location_activity ::
  "InventoryAnomalyDetector \<Rightarrow> pydict \<Rightarrow> error + AnomalyResult option" where
  "detect_unusual_location_activity det ev =
     (let location_id = dict_get ev ''location_id'' PNone;
          item_id = dict_get ev ''item_id'' PNone
      in if \<not> py_truthy location_id \<or> \<not> py_truthy item_id then Inr None
         else let historical_locations =
                    map (\<lambda>d. dict_get d ''location_id'' PNone)
                      (filter (\<lambda>d. py_eq (dict_get d ''item_id'' PNone) item_id
                                  \<and> dict_get d ''location_id'' PNone \<noteq> PNone)
                         (data_window det))
              in if length historical_locations < 5 then Inr None
                 else case count_locations [] historical_locations of
                   Inl e \<Rightarrow> Inl e
                 | Inr location_frequency \<Rightarrow>
                     if \<not> py_hashable location_id then Inl TypeError
                     else let total_transactions = length historical_locations;
                              current_location_freq =
                                real_of_int (count_of location_frequency location_id)
                                  / real total_transactions
                          in if current_location_freq < 1 - unusual_location_threshold
                             then Inr (Some
                               \<lparr> is_anomaly = True,
                                 confidence = 1 - current_location_freq,
                                 anomaly_type = ''unusual_location'',
                                 details =
                                   [(''location_id'', location_id),
                                    (''historical_frequency'', PFloat current_location_freq),
                                    (''common_locations'',
                                       PList (map (\<lambda>kv. PList [fst kv, PInt (snd kv)])
                                         (take 3 (sort_key (\<lambda>kv. - snd kv)
                                                    location_frequency))))],
                                 anomaly_severity = ''medium'' \<rparr>)
                             else Inr None)"

definition high_risk_factors :: "string list" where
  "high_risk_factors = [''after_hours'', ''bulk_transaction'', ''unusual_location'']"

definition detect_high_value_anomalies :: "pydict \<Rightarrow> error + AnomalyResult option" where
  "detect_high_value_anomalies ev =
     (let item_details = dict_get ev ''item_details'' (PDict []);
          risk_assessment = dict_get ev ''risk_assessment'' (PDict [])
      in case py_get item_details ''high_value'' PNone of
           Inl e \<Rightarrow> Inl e
         | Inr high_value \<Rightarrow>
             if \<not> py_truthy high_value then Inr None
             else case py_get risk_assessment ''factors'' (PList []) of
               Inl e \<Rightarrow> Inl e
             | Inr risk_factors \<Rightarrow>
            (case py_iter risk_factors of
               Inl e \<Rightarrow> Inl e
             | Inr factors \<Rightarrow>
                 (let present_high_risks =
                        filter (\<lambda>f. \<exists>h\<in>set high_risk_factors. py_eq f (PStr h)) factors
                  in if 2 \<le> length present_high_risks
                     then Inr (Some
                       \<lparr> is_anomaly = True,
                         confidence = 8 / 10,
                         anomaly_type = ''high_value_risk_combination'',
                         details =
                           [(''item_value'',
                               (case item_details of
                                  PDict d \<Rightarrow> dict_get d ''unit_cost'' (PInt 0)
                                | _ \<Rightarrow> PInt 0)),
                            (''risk_factors'', PList present_high_risks),
                            (''total_value'', dict_get ev ''total_value'' (PInt 0))],
                         anomaly_severity = ''high'' \<rparr>)
                     else Inr None)))"

definition detect_supplier_anomalies ::
  "InventoryAnomalyDetector \<Rightarrow> pydict \<Rightarrow> error + AnomalyResult option" where
  "detect_supplier_anomalies det ev =
     (let action = dict_get ev ''action'' PNone
      in case py_get (dict_get ev ''item_details'' (PDict [])) ''supplier'' PNone of
           Inl e \<Rightarrow> Inl e
         | Inr supplier \<Rightarrow>
             if \<not> py_eq action (PStr ''stock_in'') \<or> \<not> py_truthy supplier then Inr None
             else case comprehension
                         (\<lambda>d. if py_eq (dict_get d ''action'' PNone) (PStr ''stock_in'')
                               then (case py_get (dict_get d ''item_details'' (PDict []))
                                            ''supplier'' PNone of
                                       Inl e \<Rightarrow> Inl e
                                     | Inr s \<Rightarrow> Inr (py_eq s supplier))
                               else Inr False)
                         (\<lambda>d. Inr d) (data_window det) of
               Inl e \<Rightarrow> Inl e
             | Inr recent_deliveries \<Rightarrow>
                 if length recent_deliveries < 3 then Inr None
                 else if \<not> py_truthy (dict_get ev ''timestamp_parsed'' PNone) then Inr None
                 else case comprehension
                             (\<lambda>d. case py_get (dict_get d ''business_context'' (PDict []))
                                          ''is_weekend'' (PBool False) of
                                     Inl e \<Rightarrow> Inl e
                                   | Inr w \<Rightarrow> Inr (py_truthy w))
                             (\<lambda>d. Inr d)
                             (drop (length recent_deliveries - 10) recent_deliveries) of
                   Inl e \<Rightarrow> Inl e
                 | Inr weekend \<Rightarrow>
                (case py_get (dict_get ev ''business_context'' (PDict []))
                        ''is_weekend'' PNone of
                   Inl e \<Rightarrow> Inl e
                 | Inr is_weekend \<Rightarrow>
                     (let weekend_delivery_rate =
                            real (length weekend) / real (min (length recent_deliveries) 10)
                      in if py_truthy is_weekend \<and> weekend_delivery_rate < 1 / 10
                         then Inr (Some
                           \<lparr> is_anomaly = True,
                             confidence = 7 / 10,
                             anomaly_type = ''unusual_supplier_delivery_timing'',
                             details =
                               [(''supplier'', supplier),
                                (''weekend_delivery_rate'', PFloat weekend_delivery_rate),
                                (''is_weekend'', PBool True)],
                             anomaly_severity = ''low'' \<rparr>)
                         else Inr None)))"

text \<open>
  \<^verbatim>\<open>_detect_inventory_specific_anomalies\<close>: the five detectors in turn; every result
  that is not \<^verbatim>\<open>None\<close> is appended.
\<close>

definition opt_list :: "'a option \<Rightarrow> 'a list" where
  "opt_list r = (case r of None \<Rightarrow> [] | Some x \<Rightarrow> [x])"

definition detect_inventory_specific_anomalies ::
  "runtime \<Rightarrow> InventoryAnomalyDetector \<Rightarrow> pydict \<Rightarrow> error + AnomalyResult list" where
  "detect_inventory_specific_anomalies rt det ev =
     (case detect_negative_stock rt det ev of
        Inl e \<Rightarrow> Inl e
      | Inr negative_stock \<Rightarrow>
     (case detect_rapid_depletion rt det ev of
        Inl e \<Rightarrow> Inl e
      | Inr rapid_depletion \<Rightarrow>
     (case detect_unusual_location_activity det ev of
        Inl e \<Rightarrow> Inl e
      | Inr location_anomaly \<Rightarrow>
     (case detect_high_value_anomalies ev of
        Inl e \<Rightarrow> Inl e
      | Inr high_value_anomaly \<Rightarrow>
     (case detect_supplier_anomalies det ev of
        Inl e \<Rightarrow> Inl e
      | Inr supplier_anomaly \<Rightarrow>
          Inr (opt_list negative_stock @ opt_list rapid_depletion
               @ opt_list location_anomaly @ opt_list high_value_anomaly
               @ opt_list supplier_anomaly))))))"

text \<open>
  The list \<^verbatim>\<open>anomalies\<close> of \<^verbatim>\<open>detect\<close>: the hits of the volume, time and
  frequency detectors (kept when \<^verbatim>\<open>is_anomaly\<close> is set), then the inventory-specific
  hits, in this order.
\<close>

definition flagged :: "AnomalyResult option \<Rightarrow> AnomalyResult list" where
  "flagged r = (case r of None \<Rightarrow> [] | Some x \<Rightarrow> if is_anomaly x then [x] else [])"

definition collect_anomalies ::
  "runtime \<Rightarrow> InventoryAnomalyDetector \<Rightarrow> pydict \<Rightarrow> error + AnomalyResult list" where
  "collect_anomalies rt det ev =
     (case detect_volume_anomaly rt det ev of
        Inl e \<Rightarrow> Inl e
      | Inr volume_anomaly \<Rightarrow>
     (case detect_time_based_anomaly det ev of
        Inl e \<Rightarrow> Inl e
      | Inr time_anomaly \<Rightarrow>
     (case detect_frequency_anomaly det ev of
        Inl e \<Rightarrow> Inl e
      | Inr frequency_anomaly \<Rightarrow>
     (case detect_inventory_specific_anomalies rt det ev of
        Inl e \<Rightarrow> Inl e
      | Inr inventory_anomalies \<Rightarrow>
          Inr (flagged volume_anomaly @ flagged time_anomaly @ flagged frequency_anomaly
               @ inventory_anomalies)))))"

text \<open>
  \<^verbatim>\<open>max(anomalies, key=lambda x: x.confidence)\<close>: the list is walked from the left
  and the candidate is replaced only by an element with a strictly greater key.
\<close>

fun max_by_confidence :: "AnomalyResult \<Rightarrow> AnomalyResult list \<Rightarrow> AnomalyResult" where
  "max_by_confidence best [] = best"
| "max_by_confidence best (x # xs) =
     max_by_confidence (if confidence best < confidence x then x else best) xs"

definition no_anomaly :: AnomalyResult where
  "no_anomaly =
     \<lparr> is_anomaly = False, confidence = 0, anomaly_type = ''none'', details = [],
       anomaly_severity = ''medium'' \<rparr>"

text \<open>
  \<^verbatim>\<open>InventoryAnomalyDetector.detect\<close>: the event is added to the window first, so
  every detector sees it there. The result comes with the detector after the call.
\<close>

definition detect ::
  "runtime \<Rightarrow> InventoryAnomalyDetector \<Rightarrow> pydict
     \<Rightarrow> error + AnomalyResult \<times> InventoryAnomalyDetector" where
  "detect rt det ev =
     (let det' = add_to_window det ev
      in case collect_anomalies rt det' ev of
           Inl e \<Rightarrow> Inl e
         | Inr anomalies \<Rightarrow>
             (case anomalies of
                [] \<Rightarrow> Inr (no_anomaly, det')
              | a # rest \<Rightarrow> Inr (max_by_confidence a rest, det')))"

text \<open>
  A window for the examples: twelve stock-outs of 5 units of the item \<^verbatim>\<open>I1\<close>, all
  at Monday 10:00 within business hours, to which a thirteenth is added; and the two
  hits that the detectors then produce.
\<close>

definition repeated_stock_out :: pydict where
  "repeated_stock_out =
     [(''item_id'', PStr ''I1''), (''action'', PStr ''stock_out''),
      (''quantity_abs'', PFloat 5), (''quantity_normalized'', PFloat (- 5)),
      (''timestamp_parsed'', PDatetime monday_10h),
      (''business_context'', PDict [(''is_business_hours'', PBool True)])]"

definition busy_detector :: InventoryAnomalyDetector where
  "busy_detector =
     \<lparr> sample_size = 1000,
       data_window = [repeated_stock_out, repeated_stock_out, repeated_stock_out,
         repeated_stock_out, repeated_stock_out, repeated_stock_out, repeated_stock_out,
         repeated_stock_out, repeated_stock_out, repeated_stock_out, repeated_stock_out,
         repeated_stock_out] \<rparr>"

definition busier_detector :: InventoryAnomalyDetector where
  "busier_detector =
     \<lparr> sample_size = 1000,
       data_window = [repeated_stock_out, repeated_stock_out, repeated_stock_out,
         repeated_stock_out, repeated_stock_out, repeated_stock_out, repeated_stock_out,
         repeated_stock_out, repeated_stock_out, repeated_stock_out, repeated_stock_out,
         repeated_stock_out, repeated_stock_out] \<rparr>"

definition frequency_hit :: AnomalyResult where
  "frequency_hit =
     \<lparr> is_anomaly = True, confidence = 1, anomaly_type = ''frequency_anomaly'',
       details = [(''recent_count'', PInt 13), (''z_score'', PFloat (73 / 21)),
                  (''historical_mean'', PFloat (57 / 10))],
       anomaly_severity = ''medium'' \<rparr>"

definition depletion_hit :: AnomalyResult where
  "depletion_hit =
     \<lparr> is_anomaly = True, confidence = 1, anomaly_type = ''rapid_stock_depletion'',
       details = [(''depletion_rate'', PFloat (13 / 7)), (''total_depleted_1h'', PFloat 65),
                  (''current_stock'', PFloat 35), (''transaction_count'', PInt 13)],
       anomaly_severity = ''high'' \<rparr>"


section \<open>Properties of time windows\<close>

lemma popleft_while_dropWhile:
  "popleft_while c es = dropWhile (\<lambda>e. fst e < c) es"
  by (induction es) simp_all

lemma popleft_while_subset: "set (popleft_while c es) \<subseteq> set es"
  by (simp add: popleft_while_dropWhile) (meson set_dropWhileD subsetI)

lemma popleft_while_sorted_lower:
  "sorted (map fst es) \<Longrightarrow> e \<in> set (popleft_while c es) \<Longrightarrow> c \<le> fst e"
proof (induction es)
  case Nil
  then show ?case by simp
next
  case (Cons a es)
  show ?case
  proof (cases "fst a < c")
    case True
    with Cons show ?thesis by simp
  next
    case False
    with Cons.prems have "e = a \<or> e \<in> set es" by simp
    then show ?thesis
    proof
      assume "e = a"
      with False show ?thesis by simp
    next
      assume "e \<in> set es"
      with Cons.prems(1) have "fst a \<le> fst e" by auto
      with False show ?thesis by simp
    qed
  qed
qed

lemma popleft_while_sorted:
  "sorted (map fst es) \<Longrightarrow> sorted (map fst (popleft_while c es))"
  by (induction es) simp_all

lemma sorted_snoc_fst:
  "sorted (map fst es) \<Longrightarrow> \<forall>e\<in>set es. fst e \<le> t \<Longrightarrow> sorted (map fst (es @ [(t, x)]))"
  by (simp add: sorted_append)

lemma TimeWindow_add_data:
  "TimeWindow_add w t x = Inr w' \<Longrightarrow>
     datetime_sub t (window_size w) = Inr (t - window_size w) \<and>
     data w' = popleft_while (t - window_size w) (data w @ [(t, x)]) \<and>
     window_size w' = window_size w \<and> slide_interval w' = slide_interval w"
  by (auto simp: TimeWindow_add_def cleanup_old_data_def datetime_sub_def Let_def
      split: sum.splits if_splits)

lemma TimeWindow_add_monotone:
  assumes "sorted (map fst (data w))"
    and "\<forall>e\<in>set (data w). fst e \<le> t"
    and "TimeWindow_add w t x = Inr w'"
  shows "sorted (map fst (data w'))"
    and "\<forall>e\<in>set (data w'). t - window_size w \<le> fst e"
    and "\<forall>e\<in>set (data w'). fst e \<le> t"
proof -
  let ?es = "data w @ [(t, x)]"
  have d: "data w' = popleft_while (t - window_size w) ?es"
    using assms(3) by (simp add: TimeWindow_add_data)
  have s: "sorted (map fst ?es)"
    using assms(1,2) by (rule sorted_snoc_fst)
  show "sorted (map fst (data w'))"
    unfolding d using s by (rule popleft_while_sorted)
  show "\<forall>e\<in>set (data w'). t - window_size w \<le> fst e"
    unfolding d using s by (blast intro: popleft_while_sorted_lower)
  show "\<forall>e\<in>set (data w'). fst e \<le> t"
  proof
    fix e assume "e \<in> set (data w')"
    then have "e \<in> set ?es"
      unfolding d using popleft_while_subset by blast
    then show "fst e \<le> t" using assms(2) by auto
  qed
qed

text \<open>
  Insertion with non-decreasing timestamps keeps every window in timestamp order with
  no entry later than the last inserted timestamp: the precondition of the single-step
  statement below holds along such a run.
\<close>

lemma add_all_monotone:
  assumes "sorted (map fst (data w))"
    and "\<forall>e\<in>set (data w). \<forall>n\<in>set es. fst e \<le> fst n"
    and "sorted (map fst es)"
    and "add_all w es = Inr w'"
  shows "sorted (map fst (data w'))"
  using assms
proof (induction es arbitrary: w)
  case Nil
  then show ?case by simp
next
  case (Cons n es)
  from Cons.prems(4) obtain w1 where
    w1: "TimeWindow_add w (fst n) (snd n) = Inr w1" and rest: "add_all w1 es = Inr w'"
    by (auto split: sum.splits)
  have le: "\<forall>e\<in>set (data w). fst e \<le> fst n"
    using Cons.prems(2) by simp
  have s1: "sorted (map fst (data w1))"
    using TimeWindow_add_monotone(1) [OF Cons.prems(1) le w1] .
  have u1: "\<forall>e\<in>set (data w1). fst e \<le> fst n"
    using TimeWindow_add_monotone(3) [OF Cons.prems(1) le w1] .
  have "\<forall>e\<in>set (data w1). \<forall>m\<in>set es. fst e \<le> fst m"
  proof (intro ballI)
    fix e m assume "e \<in> set (data w1)" and "m \<in> set es"
    with u1 Cons.prems(3) show "fst e \<le> fst m" by fastforce
  qed
  moreover have "sorted (map fst es)" using Cons.prems(3) by simp
  ultimately show ?case using Cons.IH [OF s1 _ _ rest] by blast
qed

subsection \<open>Claim C2\<close>

text \<open>
  C2, as amended. For every \<^verbatim>\<open>TimeWindow\<close> whose stored entries are in non-decreasing
  timestamp order and hold no timestamp later than \<open>t\<close> (the state every run of
  insertions with non-decreasing timestamps is in), after \<^verbatim>\<open>add(t, x)\<close> returns no
  entry has a timestamp earlier than \<open>t - window_size\<close>, the stored sequence is still
  non-decreasing in timestamp, and the front entry is the oldest.
\<close>

theorem C2_add_evicts_for_monotone_inserts:
  assumes "sorted (map fst (data w))"
    and "\<forall>e\<in>set (data w). fst e \<le> t"
    and "TimeWindow_add w t x = Inr w'"
  shows "(\<forall>e\<in>set (data w'). \<not> fst e < t - window_size w') \<and>
         sorted (map fst (data w')) \<and>
         (\<forall>e\<in>set (data w'). fst (hd (data w')) \<le> fst e)"
proof -
  have ws: "window_size w' = window_size w"
    using assms(3) by (simp add: TimeWindow_add_data)
  have low: "\<forall>e\<in>set (data w'). t - window_size w \<le> fst e"
    using TimeWindow_add_monotone(2) [OF assms] .
  have srt: "sorted (map fst (data w'))"
    using TimeWindow_add_monotone(1) [OF assms] .
  have front: "\<forall>e\<in>set (data w'). fst (hd (data w')) \<le> fst e"
  proof (cases "data w'")
    case Nil
    then show ?thesis by simp
  next
    case (Cons a as)
    with srt show ?thesis by auto
  qed
  from low ws srt front show ?thesis by (simp add: not_less)
qed

text \<open>
  The theorem at a window of one minute holding entries at seconds 10 and 40, to which
  an entry at second 75 is added: the entry of second 10 is evicted.
\<close>

theorem C2_add_evicts_witness:
  "TimeWindow_add \<lparr>window_size = 60000000, slide_interval = 60000000,
       data = [(10000000, ''a''), (40000000, ''b'')]\<rparr> 75000000 ''c''
     = Inr \<lparr>window_size = 60000000, slide_interval = 60000000,
       data = [(40000000, ''b''), (75000000, ''c'')]\<rparr> \<and>
   sorted (map fst [(40000000 :: int, ''b''), (75000000, ''c'')]) \<and>
   \<not> (40000000 :: int) < 75000000 - 60000000"
proof -
  let ?w = "\<lparr>window_size = 60000000, slide_interval = 60000000,
       data = [(10000000 :: int, ''a''), (40000000, ''b'')]\<rparr>"
  let ?w' = "\<lparr>window_size = 60000000, slide_interval = 60000000,
       data = [(40000000 :: int, ''b''), (75000000, ''c'')]\<rparr>"
  have a: "sorted (map fst (data ?w))" by simp
  have b: "\<forall>e\<in>set (data ?w). fst e \<le> 75000000" by simp
  have c: "TimeWindow_add ?w 75000000 ''c'' = Inr ?w'"
    by (simp add: TimeWindow_add_def cleanup_old_data_def datetime_sub_def
        datetime_max_us_def)
  from C2_add_evicts_for_monotone_inserts [OF a b c] c show ?thesis by simp
qed

text \<open>
  The claim as stated fails for out-of-order insertion. In a window of 10 microseconds
  the insertions at 100, 50 and 100 leave the entry of time 50 behind the front entry
  of time 100, although \<open>50 < 100 - 10\<close>: the loop only inspects the front.
\<close>

theorem C2_out_of_order_counterexample:
  "add_all (TimeWindow_init 10 None) [(100, ''a''), (50, ''b''), (100, ''c'')]
     = Inr \<lparr>window_size = 10, slide_interval = 10,
            data = [(100, ''a''), (50, ''b''), (100, ''c'')]\<rparr> \<and>
   (50 :: int) < 100 - 10"
  by (simp add: TimeWindow_init_def TimeWindow_add_def cleanup_old_data_def
      datetime_sub_def datetime_max_us_def)

section \<open>Properties of the alert manager\<close>

lemma create_alert_dedup:
  "active_alerts m aid = Some a \<Longrightarrow> status a = ACTIVE \<Longrightarrow>
     create_alert m now aid ttl descr sev src md = (m, Inr (a, []))"
  by (simp add: create_alert_def)

lemma create_alert_fresh:
  "\<not> (\<exists>a. active_alerts m aid = Some a \<and> status a = ACTIVE) \<Longrightarrow>
     create_alert m now aid ttl descr sev src md =
       (let alert = Alert_init aid ttl descr sev src None md now;
            m' = m\<lparr>active_alerts := (active_alerts m)(aid \<mapsto> alert)\<rparr>
        in (m', case send_notifications m' alert of
                  Inl e \<Rightarrow> Inl e
                | Inr sends \<Rightarrow> Inr (alert, sends)))"
  by (auto simp: create_alert_def Let_def split: option.splits)

lemma send_notifications_cases:
  "send_notifications m alert = Inr sends \<Longrightarrow>
     \<exists>min_severity.
       AlertSeverity_of (dict_get (config m) ''min_notification_severity'' (PStr ''warning''))
         = Inr min_severity \<and>
       sends = (if severity_levels (severity alert) < severity_levels min_severity then []
                else map (\<lambda>channel. (channel, alert)) (notification_channels m))"
  by (auto simp: send_notifications_def split: sum.splits if_splits)

lemma send_notifications_gate:
  "AlertSeverity_of (dict_get (config m) ''min_notification_severity'' (PStr ''warning''))
     = Inr min_severity \<Longrightarrow>
   send_notifications m alert =
     Inr (if severity_levels (severity alert) < severity_levels min_severity then []
          else map (\<lambda>channel. (channel, alert)) (notification_channels m))"
  by (simp add: send_notifications_def)

lemma example_threshold:
  "AlertSeverity_of
     (dict_get (config example_manager) ''min_notification_severity'' (PStr ''warning''))
   = Inr WARNING"
  by (simp add: example_manager_def dict_get_def AlertSeverity_of_def)

lemma strict_threshold:
  "AlertSeverity_of
     (dict_get (config strict_manager) ''min_notification_severity'' (PStr ''warning''))
   = Inr ERROR"
  by (simp add: strict_manager_def dict_get_def AlertSeverity_of_def)

subsection \<open>Claim C6\<close>

text \<open>
  C6. With a configured threshold \<open>min_severity\<close> (a valid severity name, or the
  default \<^verbatim>\<open>warning\<close>) and the order info < warning < error < critical:
  \<^verbatim>\<open>_send_notifications\<close> dispatches no send for an alert whose severity is strictly
  below the threshold, and one send to every configured channel for an alert at or above
  it.
\<close>

theorem C6_severity_gating:
  assumes "AlertSeverity_of
             (dict_get (config m) ''min_notification_severity'' (PStr ''warning''))
           = Inr min_severity"
  shows "(severity_levels (severity alert) < severity_levels min_severity \<longrightarrow>
            send_notifications m alert = Inr []) \<and>
         (severity_levels min_severity \<le> severity_levels (severity alert) \<longrightarrow>
            send_notifications m alert =
              Inr (map (\<lambda>channel. (channel, alert)) (notification_channels m)))"
  using assms by (simp add: send_notifications_def)

text \<open>
  The theorem at the manager with threshold \<^verbatim>\<open>error\<close>: a warning is sent to no
  channel, a critical alert to both.
\<close>

theorem C6_severity_gating_witness:
  "send_notifications strict_manager (Alert_init ''A1'' ''t'' ''d'' WARNING ''s'' None None 5)
     = Inr [] \<and>
   send_notifications strict_manager (Alert_init ''A2'' ''t'' ''d'' CRITICAL ''s'' None None 5)
     = Inr [(example_channels ! 0, Alert_init ''A2'' ''t'' ''d'' CRITICAL ''s'' None None 5),
            (example_channels ! 1, Alert_init ''A2'' ''t'' ''d'' CRITICAL ''s'' None None 5)]"
  using C6_severity_gating [OF strict_threshold,
      of "Alert_init ''A1'' ''t'' ''d'' WARNING ''s'' None None 5"]
    C6_severity_gating [OF strict_threshold,
      of "Alert_init ''A2'' ''t'' ''d'' CRITICAL ''s'' None None 5"]
  by (simp add: Alert_init_def strict_manager_def example_channels_def)

subsection \<open>Claim C5\<close>

text \<open>
  C5, as amended. When no active alert is stored for \<open>aid\<close> and \<^verbatim>\<open>create_alert\<close>
  returns an alert for it, a second \<^verbatim>\<open>create_alert\<close> with the same id (and any other
  arguments, at any later time) returns that same alert, leaves the manager unchanged
  with that one active alert stored for the id, and dispatches nothing. The sends of the
  two calls together are those of the first call: one send to each configured channel
  when the severity is at or above the threshold, and none when it is below.
\<close>

theorem C5_create_twice:
  assumes "\<not> (\<exists>a. active_alerts m aid = Some a \<and> status a = ACTIVE)"
    and "create_alert m now aid ttl descr sev src md = (m1, Inr (a1, sends1))"
  shows "\<exists>min_severity.
           AlertSeverity_of
             (dict_get (config m) ''min_notification_severity'' (PStr ''warning''))
             = Inr min_severity \<and>
           create_alert m1 now2 aid ttl2 descr2 sev2 src2 md2 = (m1, Inr (a1, [])) \<and>
           active_alerts m1 aid = Some a1 \<and> status a1 = ACTIVE \<and>
           sends1 @ [] =
             (if severity_levels sev < severity_levels min_severity then []
              else map (\<lambda>channel. (channel, a1)) (notification_channels m))"
proof -
  let ?alert = "Alert_init aid ttl descr sev src None md now"
  let ?m' = "m\<lparr>active_alerts := (active_alerts m)(aid \<mapsto> ?alert)\<rparr>"
  let ?r = "case send_notifications ?m' ?alert of Inl e \<Rightarrow> Inl e
             | Inr sends \<Rightarrow> Inr (?alert, sends)"
  have eq: "create_alert m now aid ttl descr sev src md = (?m', ?r)"
    using assms(1) by (simp add: create_alert_fresh Let_def)
  have "(?m', ?r) = (m1, Inr (a1, sends1))"
    unfolding eq [symmetric] by (rule assms(2))
  then have m1: "m1 = ?m'" and r: "?r = Inr (a1, sends1)" by blast+
  from r have a1: "a1 = ?alert" and s: "send_notifications ?m' ?alert = Inr sends1"
    by (auto split: sum.splits)
  have act: "active_alerts m1 aid = Some a1" "status a1 = ACTIVE"
    by (simp_all add: m1 a1 Alert_init_def)
  from send_notifications_cases [OF s] obtain min_severity where
    "AlertSeverity_of (dict_get (config ?m') ''min_notification_severity'' (PStr ''warning''))
       = Inr min_severity"
    "sends1 = (if severity_levels (severity ?alert) < severity_levels min_severity then []
               else map (\<lambda>channel. (channel, ?alert)) (notification_channels ?m'))"
    by blast
  then have "AlertSeverity_of
              (dict_get (config m) ''min_notification_severity'' (PStr ''warning''))
              = Inr min_severity \<and>
            sends1 @ [] =
              (if severity_levels sev < severity_levels min_severity then []
               else map (\<lambda>channel. (channel, a1)) (notification_channels m))"
    by (simp add: a1 Alert_init_def)
  with act create_alert_dedup [OF act] show ?thesis by blast
qed


text \<open>
  The theorem at the example manager: a critical alert \<^verbatim>\<open>A1\<close> is sent to both
  channels by the first call, and the second call returns it and sends nothing.
\<close>

theorem C5_create_twice_witness:
  "(let a1 = Alert_init ''A1'' ''Low stock'' ''d'' CRITICAL ''detector'' None None 1000;
        m1 = example_manager\<lparr>active_alerts := [''A1'' \<mapsto> a1]\<rparr>
    in create_alert example_manager 1000 ''A1'' ''Low stock'' ''d'' CRITICAL ''detector'' None
         = (m1, Inr (a1, [(example_channels ! 0, a1), (example_channels ! 1, a1)])) \<and>
       create_alert m1 2000 ''A1'' ''Again'' ''e'' CRITICAL ''detector'' None
         = (m1, Inr (a1, [])))"
proof -
  let ?a1 = "Alert_init ''A1'' ''Low stock'' ''d'' CRITICAL ''detector'' None None 1000"
  let ?m1 = "example_manager\<lparr>active_alerts := [''A1'' \<mapsto> ?a1]\<rparr>"
  let ?s1 = "[(example_channels ! 0, ?a1), (example_channels ! 1, ?a1)]"
  have none: "\<not> (\<exists>a. active_alerts example_manager ''A1'' = Some a \<and> status a = ACTIVE)"
    by (simp add: example_manager_def)
  have first: "create_alert example_manager 1000 ''A1'' ''Low stock'' ''d'' CRITICAL
      ''detector'' None = (?m1, Inr (?a1, ?s1))"
    by (simp add: create_alert_def send_notifications_def example_manager_def
        example_channels_def dict_get_def AlertSeverity_of_def Alert_init_def Let_def)
  from C5_create_twice [OF none first, of 2000 "''Again''" "''e''" CRITICAL "''detector''" None]
  have "create_alert ?m1 2000 ''A1'' ''Again'' ''e'' CRITICAL ''detector'' None = (?m1, Inr (?a1, []))"
    by blast
  with first show ?thesis by (simp add: Let_def)
qed

text \<open>
  The claim as stated promises exactly one dispatch. With the default threshold
  \<^verbatim>\<open>warning\<close>, two calls for an alert of severity \<^verbatim>\<open>info\<close> dispatch nothing
  at all, although two channels are configured: the first call stops at the severity
  gate of \<^verbatim>\<open>_send_notifications\<close>.
\<close>

theorem C5_below_threshold_counterexample:
  "(let a1 = Alert_init ''A1'' ''Note'' ''d'' INFO ''detector'' None None 1000;
        m1 = example_manager\<lparr>active_alerts := [''A1'' \<mapsto> a1]\<rparr>
    in create_alert example_manager 1000 ''A1'' ''Note'' ''d'' INFO ''detector'' None
         = (m1, Inr (a1, [])) \<and>
       create_alert m1 2000 ''A1'' ''Note'' ''d'' INFO ''detector'' None
         = (m1, Inr (a1, [])) \<and>
       length (notification_channels example_manager) = 2)"
  by (simp add: create_alert_def send_notifications_def example_manager_def
      example_channels_def dict_get_def AlertSeverity_of_def Alert_init_def Let_def)


subsection \<open>Claim C10\<close>

lemma acknowledge_alert_stored:
  "active_alerts m aid = Some old \<Longrightarrow>
     acknowledge_alert m t_ack aid user =
       (m\<lparr>active_alerts := (active_alerts m)(aid \<mapsto> acknowledge old user t_ack)\<rparr>, True)"
  by (simp add: acknowledge_alert_def)


text \<open>
  C10, as amended. An alert that is acknowledged stays in the map with status
  \<^verbatim>\<open>acknowledged\<close>. A later \<^verbatim>\<open>create_alert\<close> with its id does not return it: the
  call builds a fresh alert (status \<^verbatim>\<open>active\<close>, no acknowledgement fields), overwrites
  the map entry with it and runs the notification step for it, which dispatches one send
  to every configured channel when the new severity is at or above the threshold and
  none when it is below.
\<close>

theorem C10_acknowledged_alert_recreated:
  assumes "active_alerts m aid = Some old"
    and "acknowledge_alert m t_ack aid user = (m_ack, ok)"
    and "fresh = Alert_init aid ttl descr sev src None md now"
    and "m' = m_ack\<lparr>active_alerts := (active_alerts m_ack)(aid \<mapsto> fresh)\<rparr>"
  shows "ok \<and> active_alerts m_ack aid = Some (acknowledge old user t_ack) \<and>
         status (acknowledge old user t_ack) = ACKNOWLEDGED \<and>
         create_alert m_ack now aid ttl descr sev src md =
           (m', case send_notifications m' fresh of
                  Inl e \<Rightarrow> Inl e
                | Inr sends \<Rightarrow> Inr (fresh, sends)) \<and>
         fresh \<noteq> acknowledge old user t_ack \<and>
         status fresh = ACTIVE \<and> acknowledged_by fresh = None \<and>
         acknowledged_at fresh = None \<and>
         active_alerts m' aid = Some fresh \<and>
         (\<forall>min_severity.
            AlertSeverity_of
              (dict_get (config m) ''min_notification_severity'' (PStr ''warning''))
              = Inr min_severity \<longrightarrow>
            send_notifications m' fresh =
              Inr (if severity_levels sev < severity_levels min_severity then []
                   else map (\<lambda>channel. (channel, fresh)) (notification_channels m)))"
proof -
  have ack: "m_ack = m\<lparr>active_alerts := (active_alerts m)(aid \<mapsto> acknowledge old user t_ack)\<rparr>"
    and ok: "ok"
    using assms(1,2) by (simp_all add: acknowledge_alert_def)
  have stored: "active_alerts m_ack aid = Some (acknowledge old user t_ack)"
    by (simp add: ack)
  have st: "status (acknowledge old user t_ack) = ACKNOWLEDGED"
    by (simp add: acknowledge_def)
  have na: "\<not> (\<exists>a. active_alerts m_ack aid = Some a \<and> status a = ACTIVE)"
    by (simp add: stored st)
  have cr: "create_alert m_ack now aid ttl descr sev src md =
           (m', case send_notifications m' fresh of
                  Inl e \<Rightarrow> Inl e
                | Inr sends \<Rightarrow> Inr (fresh, sends))"
    unfolding assms(3,4) using create_alert_fresh [OF na] by (simp add: Let_def)
  have fr: "status fresh = ACTIVE" "acknowledged_by fresh = None" "acknowledged_at fresh = None"
    by (simp_all add: assms(3) Alert_init_def)
  have ne: "fresh \<noteq> acknowledge old user t_ack"
    using fr(1) st by auto
  have gate: "\<forall>min_severity.
            AlertSeverity_of
              (dict_get (config m) ''min_notification_severity'' (PStr ''warning''))
              = Inr min_severity \<longrightarrow>
            send_notifications m' fresh =
              Inr (if severity_levels sev < severity_levels min_severity then []
                   else map (\<lambda>channel. (channel, fresh)) (notification_channels m))"
    by (simp add: send_notifications_def assms(3,4) ack Alert_init_def)
  have "active_alerts m' aid = Some fresh" by (simp add: assms(4))
  with ok stored st cr ne fr gate show ?thesis by blast
qed

text \<open>
  Acknowledging the critical alert \<^verbatim>\<open>A1\<close> of the example manager gives the manager
  of the example below.
\<close>

lemma acknowledged_manager_ack:
  "acknowledge_alert
     (example_manager\<lparr>active_alerts :=
        [''A1'' \<mapsto> Alert_init ''A1'' ''Low stock'' ''d'' CRITICAL ''detector'' None None 1000]\<rparr>)
     1500 ''A1'' ''bob'' = (acknowledged_manager, True)"
  by (simp add: acknowledge_alert_def acknowledged_manager_def)

text \<open>
  The theorem at the acknowledged alert \<^verbatim>\<open>A1\<close>, created again with severity
  \<^verbatim>\<open>error\<close>: both channels receive the fresh alert.
\<close>

theorem C10_acknowledged_alert_recreated_witness:
  "(let fresh = Alert_init ''A1'' ''Again'' ''e'' ERROR ''detector'' None None 2000
    in status (the (active_alerts acknowledged_manager ''A1'')) = ACKNOWLEDGED \<and>
       create_alert acknowledged_manager 2000 ''A1'' ''Again'' ''e'' ERROR ''detector'' None
         = (acknowledged_manager\<lparr>active_alerts := [''A1'' \<mapsto> fresh]\<rparr>,
            Inr (fresh, [(example_channels ! 0, fresh), (example_channels ! 1, fresh)])))"
proof -
  let ?old = "Alert_init ''A1'' ''Low stock'' ''d'' CRITICAL ''detector'' None None 1000"
  let ?m = "example_manager\<lparr>active_alerts := [''A1'' \<mapsto> ?old]\<rparr>"
  let ?fresh = "Alert_init ''A1'' ''Again'' ''e'' ERROR ''detector'' None None 2000"
  let ?m' = "acknowledged_manager\<lparr>active_alerts :=
               (active_alerts acknowledged_manager)(''A1'' \<mapsto> ?fresh)\<rparr>"
  have a: "active_alerts ?m ''A1'' = Some ?old" by simp
  have cfg: "AlertSeverity_of
      (dict_get (config ?m) ''min_notification_severity'' (PStr ''warning'')) = Inr WARNING"
    using example_threshold by simp
  from C10_acknowledged_alert_recreated [where ttl = "''Again''" and descr = "''e''"
      and sev = ERROR and src = "''detector''" and md = None and now = 2000,
      OF a acknowledged_manager_ack refl refl] cfg
  have "create_alert acknowledged_manager 2000 ''A1'' ''Again'' ''e'' ERROR ''detector'' None =
           (?m', case send_notifications ?m' ?fresh of
                  Inl e \<Rightarrow> Inl e
                | Inr sends \<Rightarrow> Inr (?fresh, sends))"
    and "send_notifications ?m' ?fresh =
           Inr (if severity_levels ERROR < severity_levels WARNING then []
                else map (\<lambda>channel. (channel, ?fresh)) (notification_channels ?m))"
    by blast+
  then show ?thesis
    by (simp add: Let_def acknowledged_manager_def acknowledge_def example_manager_def
        example_channels_def)
qed


text \<open>
  The claim as stated says that notifications are dispatched again. Created again with
  severity \<^verbatim>\<open>info\<close> under the default threshold, the acknowledged alert is replaced
  by a fresh one and nothing is sent to the two channels.
\<close>

theorem C10_below_threshold_counterexample:
  "(let fresh = Alert_init ''A1'' ''Again'' ''e'' INFO ''detector'' None None 2000
    in status (the (active_alerts acknowledged_manager ''A1'')) = ACKNOWLEDGED \<and>
       create_alert acknowledged_manager 2000 ''A1'' ''Again'' ''e'' INFO ''detector'' None
         = (acknowledged_manager\<lparr>active_alerts := [''A1'' \<mapsto> fresh]\<rparr>, Inr (fresh, [])) \<and>
       length (notification_channels acknowledged_manager) = 2)"
  by (simp add: create_alert_def send_notifications_def acknowledged_manager_def
      example_manager_def acknowledge_def
      example_channels_def dict_get_def AlertSeverity_of_def Alert_init_def Let_def)

section \<open>Properties of the storage manager\<close>










subsection \<open>Claim C7\<close>


lemma dict_get_cong: "map_of ev1 = map_of ev2 \<Longrightarrow> dict_get ev1 = dict_get ev2"
  by (intro ext) (simp add: dict_get_def)

lemma dict_has_cong: "map_of ev1 = map_of ev2 \<Longrightarrow> dict_has ev1 = dict_has ev2"
  by (intro ext) (simp add: dict_has_def)

lemma infer_data_type_cong:
  assumes "map_of ev1 = map_of ev2"
  shows "infer_data_type ev1 = infer_data_type ev2"
  unfolding infer_data_type_def dict_get_cong [OF assms] dict_has_cong [OF assms]
  by (rule refl)

subsection \<open>Claim C8\<close>

text \<open>
  C8. In managers with the default routing rules, the target adapters computed by
  \<^verbatim>\<open>_get_target_adapters(_infer_data_type(record))\<close> (or the exception of the
  inference) depend on the content of the record alone: two records with the same keys
  and values, in any key order and in any two such managers, get the same result.
\<close>

theorem C8_router_determinism:
  assumes "routing_rules m1 = default_routing_rules"
    and "routing_rules m2 = default_routing_rules"
    and "map_of ev1 = map_of ev2"
  shows "route_record m1 ev1 = route_record m2 ev2"
  unfolding route_record_def get_target_adapters_def assms(1,2)
    infer_data_type_cong [OF assms(3)]
  by (rule refl)

lemma StorageManager_init_rules:
  "routing_rules (StorageManager_init cfg make_adapter) = default_routing_rules"
  by (simp add: StorageManager_init_def)

lemma alert_record_type: "infer_data_type alert_record = Inr ''alerts''"
  by (simp add: infer_data_type_def alert_record_def dict_has_def dict_get_def py_lower_def)

text \<open>
  The theorem at two managers with different configurations and adapters and at the
  alert record in two key orders.
\<close>

theorem C8_router_determinism_witness:
  "route_record example_storage alert_record = Inr [''elasticsearch'', ''clickhouse''] \<and>
   route_record other_storage (rev alert_record) = Inr [''elasticsearch'', ''clickhouse'']"
proof -
  have r1: "routing_rules example_storage = default_routing_rules"
    by (simp add: example_storage_def StorageManager_init_rules)
  have r2: "routing_rules other_storage = default_routing_rules"
    by (simp add: other_storage_def StorageManager_init_rules)
  have eq: "map_of alert_record = map_of (rev alert_record)"
    by (rule ext) (simp add: alert_record_def)
  have "route_record example_storage alert_record = Inr [''elasticsearch'', ''clickhouse'']"
    by (simp add: route_record_def alert_record_type get_target_adapters_def r1
        default_routing_rules_def)
  with C8_router_determinism [OF r1 r2 eq] show ?thesis by simp
qed

subsection \<open>Claim C7 at the partial-failure scenario\<close>


section \<open>Properties of the event processor\<close>

lemma dict_get_update:
  "dict_get (AList.update k v d) k' dflt = (if k' = k then v else dict_get d k' dflt)"
  by (simp add: dict_get_def update_conv')

lemma dict_has_update:
  "dict_has (AList.update k v d) k' = (k' = k \<or> dict_has d k')"
  by (simp add: dict_has_def update_conv')


lemma normalize_action_Inr:
  "(\<exists>n. normalize_action a = Inr n) = py_hashable a"
  by (auto simp: normalize_action_def split: pyval.splits option.splits)


lemma process_returns_iff:
  "(\<exists>out. process rt ev md = Inr out) = process_returns rt ev"
proof
  assume "\<exists>out. process rt ev md = Inr out"
  then show "process_returns rt ev"
    unfolding process_returns_def
    by (auto simp: process_def Let_def dict_get_update dict_has_update
        normalize_action_Inr [symmetric]
        split: sum.splits if_splits)
next
  assume r: "process_returns rt ev"
  then obtain q t where
    q: "py_float rt (dict_get ev ''quantity'' (PInt 0)) = Inr q" and
    t: "parse_timestamp rt (dict_get ev ''timestamp'' PNone) = Inr t"
    unfolding process_returns_def by blast
  from r have a: "dict_has ev ''action'' \<Longrightarrow>
      \<exists>n. normalize_action (dict_get ev ''action'' PNone) = Inr n"
    unfolding process_returns_def by (simp add: normalize_action_Inr)
  from r have p: "dict_has ev ''unit_price'' \<Longrightarrow>
      \<exists>p. py_float rt (dict_get ev ''unit_price'' PNone) = Inr p"
    unfolding process_returns_def by blast
  show "\<exists>out. process rt ev md = Inr out"
  proof (cases "dict_has ev ''action''")
    case True
    from a [OF True] obtain n where n: "normalize_action (dict_get ev ''action'' PNone) = Inr n"
      by blast
    show ?thesis
    proof (cases "dict_has ev ''unit_price''")
      case True
      from p [OF True] obtain pr where "py_float rt (dict_get ev ''unit_price'' PNone) = Inr pr"
        by blast
      with True \<open>dict_has ev ''action''\<close> n q t show ?thesis
        by (simp add: process_def Let_def dict_get_update dict_has_update)
    next
      case False
      with \<open>dict_has ev ''action''\<close> n q t show ?thesis
        by (simp add: process_def Let_def dict_get_update dict_has_update)
    qed
  next
    case False
    show ?thesis
    proof (cases "dict_has ev ''unit_price''")
      case True
      from p [OF True] obtain pr where "py_float rt (dict_get ev ''unit_price'' PNone) = Inr pr"
        by blast
      with True \<open>\<not> dict_has ev ''action''\<close> q t show ?thesis
        by (simp add: process_def Let_def dict_get_update dict_has_update)
    next
      case False
      with \<open>\<not> dict_has ev ''action''\<close> q t show ?thesis
        by (simp add: process_def Let_def dict_get_update dict_has_update)
    qed
  qed
qed

subsection \<open>Claim C1\<close>


subsection \<open>Claim C3\<close>

text \<open>
  C3, as amended. \<^verbatim>\<open>process\<close> returns a processed event exactly for the inputs whose
  action, where present, is hashable, whose quantity (0 when absent) and whose unit
  price, where present, convert with \<^verbatim>\<open>float\<close>, and whose timestamp is parsed without
  an exception; for every other input it raises. A quantity or unit price that is not
  numeric does not pass through: the consumer validates the message before it calls
  \<^verbatim>\<open>process\<close>.
\<close>

theorem C3_process_returns_iff_convertible:
  "(\<exists>out. process rt ev md = Inr out) =
     ((dict_has ev ''action'' \<longrightarrow> py_hashable (dict_get ev ''action'' PNone)) \<and>
      (\<exists>q. py_float rt (dict_get ev ''quantity'' (PInt 0)) = Inr q) \<and>
      (\<exists>t. parse_timestamp rt (dict_get ev ''timestamp'' PNone) = Inr t) \<and>
      (dict_has ev ''unit_price'' \<longrightarrow>
         (\<exists>p. py_float rt (dict_get ev ''unit_price'' PNone) = Inr p)))"
  unfolding process_returns_def [symmetric] by (rule process_returns_iff)

lemma replace_Z_example: "replace_Z ''2024-03-11T10:00:00Z'' = ''2024-03-11T10:00:00+00:00''"
  by (simp add: replace_Z_def)

lemma parse_example:
  "parse_timestamp example_runtime (PStr ''2024-03-11T10:00:00Z'') = Inr monday_10h"
  by (simp add: parse_timestamp_def replace_Z_example example_runtime_def)




text \<open>
  Claim C3 at the stock-in event: its four conversions succeed, and the call returns.
\<close>

theorem C3_process_returns_witness:
  "(\<exists>out. process example_runtime stock_in_event kafka_meta = Inr out) \<and>
   py_hashable (dict_get stock_in_event ''action'' PNone) \<and>
   py_float example_runtime (dict_get stock_in_event ''quantity'' (PInt 0)) = Inr 50 \<and>
   parse_timestamp example_runtime (dict_get stock_in_event ''timestamp'' PNone)
     = Inr monday_10h \<and>
   py_float example_runtime (dict_get stock_in_event ''unit_price'' PNone) = Inr 2"
proof -
  have h: "py_hashable (dict_get stock_in_event ''action'' PNone)"
    by (simp add: stock_in_event_def dict_get_def)
  have q: "py_float example_runtime (dict_get stock_in_event ''quantity'' (PInt 0)) = Inr 50"
    by (simp add: stock_in_event_def dict_get_def float_overflow_bound_def)
  have t: "parse_timestamp example_runtime (dict_get stock_in_event ''timestamp'' PNone)
     = Inr monday_10h"
    by (simp add: stock_in_event_def dict_get_def parse_example)
  have p: "py_float example_runtime (dict_get stock_in_event ''unit_price'' PNone) = Inr 2"
    by (simp add: stock_in_event_def dict_get_def)
  from C3_process_returns_iff_convertible [of example_runtime stock_in_event kafka_meta]
    h q t p
  have "\<exists>out. process example_runtime stock_in_event kafka_meta = Inr out" by blast
  with h q t p show ?thesis by blast
qed

text \<open>
  The claim as stated fails: a quantity that is JSON \<^verbatim>\<open>null\<close> or a word, or a unit
  price that is a list, makes \<^verbatim>\<open>process\<close> raise.
\<close>

theorem C3_non_numeric_counterexample:
  "process example_runtime
     [(''item_id'', PStr ''I1''), (''action'', PStr ''stock_in''), (''quantity'', PNone),
      (''timestamp'', PStr ''2024-03-11T10:00:00Z'')] kafka_meta = Inl TypeError \<and>
   process example_runtime
     [(''item_id'', PStr ''I1''), (''action'', PStr ''stock_in''), (''quantity'', PStr ''ten''),
      (''timestamp'', PStr ''2024-03-11T10:00:00Z'')] kafka_meta = Inl ValueError \<and>
   process example_runtime
     [(''item_id'', PStr ''I1''), (''action'', PStr ''stock_in''), (''quantity'', PInt 5),
      (''unit_price'', PList []), (''timestamp'', PStr ''2024-03-11T10:00:00Z'')] kafka_meta
     = Inl TypeError"
  by (simp add: process_def Let_def dict_has_def dict_get_def
      normalize_action_def action_mappings_def parse_example float_overflow_bound_def)
    (simp add: example_runtime_def)

section \<open>Properties of the enricher\<close>

lemma py_eq_refl: "py_eq k k"
  by (simp add: py_eq_def split: option.splits)

lemma cache_lookup_append:
  "cache_lookup c k = None \<Longrightarrow> cache_lookup (c @ [(k, v)]) k = Some v"
  by (induction c) (auto simp: py_eq_refl split: if_splits)

lemma redis_cached_setex:
  "redis_cached en key = None \<Longrightarrow>
     redis_cached (redis_setex en key v) key = None \<or>
     redis_cached (redis_setex en key v) key = Some v"
  by (auto simp: redis_cached_def redis_setex_def update_conv' split: option.splits)

lemma redis_cached_item_cache:
  "redis_cached (en\<lparr>item_cache := c\<rparr>) key = redis_cached en key"
  by (simp add: redis_cached_def)

lemma redis_cached_location_cache:
  "redis_cached (en\<lparr>location_cache := c\<rparr>) key = redis_cached en key"
  by (simp add: redis_cached_def)

lemma redis_setex_caches:
  "item_cache (redis_setex en key v) = item_cache en"
  "location_cache (redis_setex en key v) = location_cache en"
  by (simp_all add: redis_setex_def split: option.splits)

lemma redis_setex_location_cache:
  "redis_setex (en\<lparr>location_cache := c\<rparr>) key v = (redis_setex en key v)\<lparr>location_cache := c\<rparr>"
  by (simp add: redis_setex_def split: option.splits)

text \<open>A second lookup of the same id finds what the first one returned.\<close>

lemma get_item_details_again:
  assumes "get_item_details rt en k = Inr (v, en')"
  shows "get_item_details rt en' k = Inr (v, en')"
proof (cases "py_truthy k")
  case False
  with assms show ?thesis by (simp add: get_item_details_def)
next
  case True
  let ?key = "''item:'' @ py_format rt k"
  show ?thesis
  proof (cases "redis_cached en ?key")
    case (Some cached)
    with True assms show ?thesis by (auto simp: get_item_details_def)
  next
    case None
    with True assms have h: "py_hashable k"
      by (auto simp: get_item_details_def split: if_splits)
    show ?thesis
    proof (cases "cache_lookup (item_cache en) k")
      case (Some details)
      with True None h assms show ?thesis by (auto simp: get_item_details_def)
    next
      case miss: None
      let ?mock = "PDict (generate_mock_item_details rt k)"
      let ?en1 = "en\<lparr>item_cache := item_cache en @ [(k, ?mock)]\<rparr>"
      from True None h miss assms have v: "v = ?mock" and en': "en' = redis_setex ?en1 ?key ?mock"
        by (auto simp: get_item_details_def Let_def)
      have r1: "redis_cached ?en1 ?key = None"
        using None by (simp add: redis_cached_item_cache)
      have c: "cache_lookup (item_cache en') k = Some ?mock"
        by (simp add: en' redis_setex_caches cache_lookup_append [OF miss])
      from redis_cached_setex [OF r1, of ?mock]
      have "redis_cached en' ?key = None \<or> redis_cached en' ?key = Some ?mock"
        by (simp add: en')
      then show ?thesis
      proof
        assume "redis_cached en' ?key = None"
        then show ?thesis
          using True h c by (simp add: get_item_details_def v)
      next
        assume "redis_cached en' ?key = Some ?mock"
        then show ?thesis
          using True by (simp add: get_item_details_def v)
      qed
    qed
  qed
qed

lemma redis_setex_location_cache':
  "redis_setex (en\<lparr>location_cache := c, item_cache := x\<rparr>) key v
     = (redis_setex (en\<lparr>item_cache := x\<rparr>) key v)\<lparr>location_cache := c\<rparr>"
  by (simp add: redis_setex_def split: option.splits)

lemma get_item_details_location_cache:
  "get_item_details rt en k = Inr (v, en') \<Longrightarrow>
     get_item_details rt (en\<lparr>location_cache := c\<rparr>) k = Inr (v, en'\<lparr>location_cache := c\<rparr>)"
  by (auto simp: get_item_details_def redis_cached_location_cache redis_setex_location_cache
      redis_setex_location_cache'
      Let_def split: if_splits option.splits)

lemma get_location_details_again:
  assumes "get_location_details rt en k = Inr (v, en')"
  shows "get_location_details rt en' k = Inr (v, en')"
    and "en' = en\<lparr>location_cache := location_cache en'\<rparr>"
  using assms
  by (auto simp: get_location_details_def Let_def cache_lookup_append
      split: if_splits option.splits)

lemma dict_get_update_other:
  "k' \<noteq> k \<Longrightarrow> dict_get (AList.update k v d) k' = dict_get d k'"
  by (intro ext) (simp add: dict_get_def update_conv')

lemma map_of_update_same: "map_of (AList.update k v d) k = Some v"
  by (simp add: update_conv')

lemma map_of_update_other: "k' \<noteq> k \<Longrightarrow> map_of (AList.update k v d) k' = map_of d k'"
  by (simp add: update_conv')

lemma classify_inventory_event_cong:
  assumes "dict_get a ''quantity_abs'' = dict_get b ''quantity_abs''"
    and "dict_get a ''total_value'' = dict_get b ''total_value''"
    and "dict_get a ''item_details'' = dict_get b ''item_details''"
    and "dict_get a ''action'' = dict_get b ''action''"
    and "dict_get a ''normalized_action'' = dict_get b ''normalized_action''"
  shows "classify_inventory_event a = classify_inventory_event b"
  unfolding classify_inventory_event_def get_volume_category_def get_value_category_def
    get_urgency_level_def assms
  by (rule refl)

lemma assess_risk_cong:
  assumes "dict_get a ''item_details'' = dict_get b ''item_details''"
    and "dict_get a ''classification'' = dict_get b ''classification''"
    and "dict_get a ''business_context'' = dict_get b ''business_context''"
  shows "assess_risk a = assess_risk b"
  unfolding assess_risk_def assms by (rule refl)

lemma get_seasonal_context_cong:
  assumes "dict_get a ''timestamp_parsed'' = dict_get b ''timestamp_parsed''"
    and "dict_get a ''item_details'' = dict_get b ''item_details''"
  shows "get_seasonal_context a = get_seasonal_context b"
  unfolding get_seasonal_context_def assms by (rule refl)

text \<open>What \<^verbatim>\<open>enrich\<close> computed, step by step, when it returns.\<close>

lemma enrich_steps:
  assumes "enrich rt en ev = Inr (ev1, enf)"
  obtains item_details en1 location_details classification risk_assessment seasonal_context
  where "get_item_details rt en (dict_get ev ''item_id'' PNone) = Inr (item_details, en1)"
    and "get_location_details rt en1 (dict_get ev ''location_id'' PNone)
           = Inr (location_details, enf)"
    and "classify_inventory_event
           (if py_truthy location_details
            then AList.update ''location_details'' location_details
                   (if py_truthy item_details
                    then AList.update ''item_details'' item_details ev else ev)
            else (if py_truthy item_details
                  then AList.update ''item_details'' item_details ev else ev))
         = Inr classification"
    and "assess_risk
           (AList.update ''classification'' (PDict classification)
             (if py_truthy location_details
              then AList.update ''location_details'' location_details
                     (if py_truthy item_details
                      then AList.update ''item_details'' item_details ev else ev)
              else (if py_truthy item_details
                    then AList.update ''item_details'' item_details ev else ev)))
         = Inr risk_assessment"
    and "get_seasonal_context
           (AList.update ''risk_assessment'' (PDict risk_assessment)
             (AList.update ''classification'' (PDict classification)
               (if py_truthy location_details
                then AList.update ''location_details'' location_details
                       (if py_truthy item_details
                        then AList.update ''item_details'' item_details ev else ev)
                else (if py_truthy item_details
                      then AList.update ''item_details'' item_details ev else ev))))
         = Inr seasonal_context"
    and "ev1 = AList.update ''seasonal_context'' (PDict seasonal_context)
           (AList.update ''risk_assessment'' (PDict risk_assessment)
             (AList.update ''classification'' (PDict classification)
               (if py_truthy location_details
                then AList.update ''location_details'' location_details
                       (if py_truthy item_details
                        then AList.update ''item_details'' item_details ev else ev)
                else (if py_truthy item_details
                      then AList.update ''item_details'' item_details ev else ev))))"
  using assms unfolding enrich_def Let_def
  by (auto split: sum.splits prod.splits)

subsection \<open>Claim C9\<close>

text \<open>
  C9. Enrichment is idempotent: when \<^verbatim>\<open>enrich\<close> returns the event \<open>ev1\<close> and leaves
  the enricher in the state \<open>en1\<close>, enriching \<open>ev1\<close> again returns \<open>ev1\<close> itself,
  with every field as it was (so \<^verbatim>\<open>item_details\<close>, \<^verbatim>\<open>location_details\<close>,
  \<^verbatim>\<open>classification\<close>, \<^verbatim>\<open>risk_assessment\<close> and \<^verbatim>\<open>seasonal_context\<close> are
  unchanged), and leaves the caches as they were. The shared cache is a store that
  nothing but the enricher writes between the two calls.
\<close>

theorem C9_enrich_idempotent:
  assumes "enrich rt en ev = Inr (ev1, en1)"
  shows "enrich rt en1 ev1 = Inr (ev1, en1)"
proof -
  from assms obtain item_details en0 location_details classification risk_assessment
    seasonal_context
    where item: "get_item_details rt en (dict_get ev ''item_id'' PNone) = Inr (item_details, en0)"
    and loc: "get_location_details rt en0 (dict_get ev ''location_id'' PNone)
           = Inr (location_details, en1)"
    and cl: "classify_inventory_event
           (if py_truthy location_details
            then AList.update ''location_details'' location_details
                   (if py_truthy item_details
                    then AList.update ''item_details'' item_details ev else ev)
            else (if py_truthy item_details
                  then AList.update ''item_details'' item_details ev else ev))
         = Inr classification"
    and ri: "assess_risk
           (AList.update ''classification'' (PDict classification)
             (if py_truthy location_details
              then AList.update ''location_details'' location_details
                     (if py_truthy item_details
                      then AList.update ''item_details'' item_details ev else ev)
              else (if py_truthy item_details
                    then AList.update ''item_details'' item_details ev else ev)))
         = Inr risk_assessment"
    and se: "get_seasonal_context
           (AList.update ''risk_assessment'' (PDict risk_assessment)
             (AList.update ''classification'' (PDict classification)
               (if py_truthy location_details
                then AList.update ''location_details'' location_details
                       (if py_truthy item_details
                        then AList.update ''item_details'' item_details ev else ev)
                else (if py_truthy item_details
                      then AList.update ''item_details'' item_details ev else ev))))
         = Inr seasonal_context"
    and ev1: "ev1 = AList.update ''seasonal_context'' (PDict seasonal_context)
           (AList.update ''risk_assessment'' (PDict risk_assessment)
             (AList.update ''classification'' (PDict classification)
               (if py_truthy location_details
                then AList.update ''location_details'' location_details
                       (if py_truthy item_details
                        then AList.update ''item_details'' item_details ev else ev)
                else (if py_truthy item_details
                      then AList.update ''item_details'' item_details ev else ev))))"
    by (rule enrich_steps)
  define ed1 where "ed1 = (if py_truthy item_details
                    then AList.update ''item_details'' item_details ev else ev)"
  define ed2 where "ed2 = (if py_truthy location_details
            then AList.update ''location_details'' location_details ed1 else ed1)"
  define ed3 where "ed3 = AList.update ''classification'' (PDict classification) ed2"
  define ed4 where "ed4 = AList.update ''risk_assessment'' (PDict risk_assessment) ed3"
  have cl': "classify_inventory_event ed2 = Inr classification"
    using cl by (simp only: ed1_def ed2_def)
  have ri': "assess_risk ed3 = Inr risk_assessment"
    using ri by (simp only: ed1_def ed2_def ed3_def)
  have se': "get_seasonal_context ed4 = Inr seasonal_context"
    using se by (simp only: ed1_def ed2_def ed3_def ed4_def)
  have ev1': "ev1 = AList.update ''seasonal_context'' (PDict seasonal_context) ed4"
    using ev1 by (simp only: ed1_def ed2_def ed3_def ed4_def)
  text \<open>The fields that the enrichment does not write are those of the input.\<close>
  have ed1_other: "\<And>k. k \<noteq> ''item_details'' \<Longrightarrow> dict_get ed1 k = dict_get ev k"
    by (simp add: ed1_def dict_get_update_other)
  have ed2_other: "\<And>k. k \<noteq> ''location_details'' \<Longrightarrow> dict_get ed2 k = dict_get ed1 k"
    by (simp add: ed2_def dict_get_update_other)
  have ed3_other: "\<And>k. k \<noteq> ''classification'' \<Longrightarrow> dict_get ed3 k = dict_get ed2 k"
    by (simp add: ed3_def dict_get_update_other)
  have ed4_other: "\<And>k. k \<noteq> ''risk_assessment'' \<Longrightarrow> dict_get ed4 k = dict_get ed3 k"
    by (simp add: ed4_def dict_get_update_other)
  have ev1_other: "\<And>k. k \<noteq> ''seasonal_context'' \<Longrightarrow> dict_get ev1 k = dict_get ed4 k"
    by (simp add: ev1' dict_get_update_other)
  have id_eq: "dict_get ev1 ''item_id'' = dict_get ev ''item_id''"
    by (simp add: ev1_other ed4_other ed3_other ed2_other ed1_other)
  have loc_eq: "dict_get ev1 ''location_id'' = dict_get ev ''location_id''"
    by (simp add: ev1_other ed4_other ed3_other ed2_other ed1_other)
  text \<open>The lookups of the second call.\<close>
  have en1: "en1 = en0\<lparr>location_cache := location_cache en1\<rparr>"
    using get_location_details_again(2) [OF loc] .
  have "get_item_details rt (en0\<lparr>location_cache := location_cache en1\<rparr>)
          (dict_get ev ''item_id'' PNone)
        = Inr (item_details, en0\<lparr>location_cache := location_cache en1\<rparr>)"
    using get_item_details_location_cache [OF get_item_details_again [OF item]] .
  then have i2: "get_item_details rt en1 (dict_get ev1 ''item_id'' PNone)
                   = Inr (item_details, en1)"
    using en1 by (simp add: id_eq)
  have l2: "get_location_details rt en1 (dict_get ev1 ''location_id'' PNone)
              = Inr (location_details, en1)"
    using get_location_details_again(1) [OF loc] by (simp add: loc_eq)
  text \<open>The five assignments of the second call write what is already there.\<close>
  have m_item: "py_truthy item_details \<Longrightarrow> map_of ev1 ''item_details'' = Some item_details"
    by (simp add: ev1' ed4_def ed3_def ed2_def ed1_def update_conv')
  have m_loc: "py_truthy location_details \<Longrightarrow>
                 map_of ev1 ''location_details'' = Some location_details"
    by (simp add: ev1' ed4_def ed3_def ed2_def update_conv')
  have m_cl: "map_of ev1 ''classification'' = Some (PDict classification)"
    by (simp add: ev1' ed4_def ed3_def update_conv')
  have m_ri: "map_of ev1 ''risk_assessment'' = Some (PDict risk_assessment)"
    by (simp add: ev1' ed4_def update_conv')
  have m_se: "map_of ev1 ''seasonal_context'' = Some (PDict seasonal_context)"
    by (simp add: ev1' update_conv')
  have u1: "py_truthy item_details \<Longrightarrow>
              AList.update ''item_details'' item_details ev1 = ev1"
    using m_item by (simp add: update_triv)
  have u2: "py_truthy location_details \<Longrightarrow>
              AList.update ''location_details'' location_details ev1 = ev1"
    using m_loc by (simp add: update_triv)
  have u3: "AList.update ''classification'' (PDict classification) ev1 = ev1"
    using m_cl by (rule update_triv)
  have u4: "AList.update ''risk_assessment'' (PDict risk_assessment) ev1 = ev1"
    using m_ri by (rule update_triv)
  have u5: "AList.update ''seasonal_context'' (PDict seasonal_context) ev1 = ev1"
    using m_se by (rule update_triv)
  text \<open>The three computed fields read nothing that a later assignment changed.\<close>
  have c2: "classify_inventory_event ev1 = Inr classification"
  proof -
    have "classify_inventory_event ev1 = classify_inventory_event ed2"
      by (rule classify_inventory_event_cong)
        (simp_all add: ev1_other ed4_other ed3_other)
    with cl' show ?thesis by simp
  qed
  have r2: "assess_risk ev1 = Inr risk_assessment"
  proof -
    have "assess_risk ev1 = assess_risk ed3"
      by (rule assess_risk_cong) (simp_all add: ev1_other ed4_other)
    with ri' show ?thesis by simp
  qed
  have s2: "get_seasonal_context ev1 = Inr seasonal_context"
  proof -
    have "get_seasonal_context ev1 = get_seasonal_context ed4"
      by (rule get_seasonal_context_cong) (simp_all add: ev1_other)
    with se' show ?thesis by simp
  qed
  show ?thesis
    by (simp add: enrich_def Let_def i2 u1 l2 u2 c2 u3 r2 u4 s2 u5)
qed

lemma item_I1_lookup:
  "get_item_details example_runtime fresh_enricher (PStr ''I1'')
     = Inr (item_I1_details, warm_enricher)"
  by (simp add: get_item_details_def fresh_enricher_def InventoryEnricher_init_def
      redis_cached_def redis_setex_def py_format_def generate_mock_item_details_def
      example_runtime_def item_I1_details_def warm_enricher_def Let_def)

lemma enrich_stock_out:
  "enrich example_runtime fresh_enricher processed_stock_out
     = Inr (enriched_stock_out, warm_enricher)"
proof -
  have i: "dict_get processed_stock_out ''item_id'' PNone = PStr ''I1''"
    and l: "dict_get processed_stock_out ''location_id'' PNone = PNone"
    by (simp_all add: processed_stock_out_def stock_out_event_def dict_get_def)
  have t: "py_truthy item_I1_details" by (simp add: item_I1_details_def)
  have loc: "get_location_details example_runtime warm_enricher PNone = Inr (PNone, warm_enricher)"
    by (simp add: get_location_details_def)
  let ?ed = "AList.update ''item_details'' item_I1_details processed_stock_out"
  have ed: "?ed = processed_stock_out @ [(''item_details'', item_I1_details)]"
    by (simp add: processed_stock_out_def stock_out_event_def)
  show ?thesis
    apply (simp add: enrich_def i l item_I1_lookup t loc ed Let_def)
    apply (simp add: classify_inventory_event_def get_volume_category_def
        get_value_category_def get_urgency_level_def assess_risk_def get_seasonal_context_def
        py_less_num_def py_get_def py_eq_def dict_get_def processed_stock_out_def
        stock_out_event_def item_I1_details_def enriched_stock_out_def monday_10h_def Let_def)
    done
qed

text \<open>
  Claim C9 at the processed stock-out event and an enricher whose caches are empty: the
  first call fills both caches with the details of the item, the second call returns the
  same event.
\<close>

theorem C9_enrich_idempotent_witness:
  "enrich example_runtime fresh_enricher processed_stock_out
     = Inr (enriched_stock_out, warm_enricher) \<and>
   enrich example_runtime warm_enricher enriched_stock_out
     = Inr (enriched_stock_out, warm_enricher)"
  using C9_enrich_idempotent [OF enrich_stock_out] enrich_stock_out by simp

section \<open>Properties of the anomaly detector\<close>

lemma add_to_busy: "add_to_window busy_detector repeated_stock_out = busier_detector"
  by (simp add: add_to_window_def busy_detector_def busier_detector_def)

lemma repeated_fields:
  "dict_get repeated_stock_out ''item_id'' d = PStr ''I1''"
  "dict_get repeated_stock_out ''action'' d = PStr ''stock_out''"
  "dict_get repeated_stock_out ''quantity_abs'' d = PFloat 5"
  "dict_get repeated_stock_out ''quantity_normalized'' d = PFloat (- 5)"
  "dict_get repeated_stock_out ''timestamp_parsed'' d = PDatetime monday_10h"
  "dict_get repeated_stock_out ''business_context'' d
     = PDict [(''is_business_hours'', PBool True)]"
  "dict_get repeated_stock_out ''location_id'' d = d"
  "dict_get repeated_stock_out ''item_details'' d = d"
  "dict_get repeated_stock_out ''risk_assessment'' d = d"
  "dict_get repeated_stock_out ''total_value'' d = d"
  by (simp_all add: repeated_stock_out_def dict_get_def)

lemma repeated_matches: "matches_pattern repeated_stock_out repeated_stock_out"
  by (simp add: matches_pattern_def py_eq_def repeated_fields)

lemma historical_mean: "np_mean get_historical_frequencies = 57 / 10"
  by (simp add: np_mean_def get_historical_frequencies_def)

lemma historical_std: "np_std get_historical_frequencies = 21 / 10"
proof -
  have "sum_list (map (\<lambda>x. (x - np_mean get_historical_frequencies)\<^sup>2)
          get_historical_frequencies) / real (length get_historical_frequencies)
        = (21 / 10)\<^sup>2"
    unfolding historical_mean
    by (simp add: get_historical_frequencies_def power2_eq_square)
  moreover have "sqrt ((21 / 10)\<^sup>2) = (21 / 10 :: real)" by simp
  ultimately show ?thesis
    unfolding np_std_def by (simp only:)
qed

lemma z_score_13: "calculate_z_score 13 get_historical_frequencies = 73 / 21"
  unfolding calculate_z_score_def Let_def historical_mean historical_std
  by (simp add: get_historical_frequencies_def)

lemma dict_get_Nil: "dict_get [] k d = d"
  by (simp add: dict_get_def)

lemma dict_get_Cons:
  "dict_get ((k', v) # rest) k d = (if k = k' then v else dict_get rest k d)"
  by (simp add: dict_get_def)

lemma py_eq_str: "py_eq (PStr a) (PStr b) = (a = b)"
  by (simp add: py_eq_def)

lemma py_eq_None_str: "py_eq PNone (PStr b) = False"
  by (simp add: py_eq_def)

lemma hour_before_monday:
  "one_hour_before (PDatetime monday_10h) = Inr 63845744400000000"
  by (simp add: one_hour_before_def monday_10h_def datetime_sub_def datetime_max_us_def)

lemma repeated_in_last_hour:
  "in_last_hour 63845744400000000 repeated_stock_out = Inr True"
  by (simp add: in_last_hour_def repeated_fields py_later_def monday_10h_def)

lemma busier_frequency:
  "detect_frequency_anomaly busier_detector repeated_stock_out = Inr (Some frequency_hit)"
proof -
  have c: "comprehension
             (\<lambda>d. if matches_pattern d repeated_stock_out
                   then in_last_hour 63845744400000000 d else Inr False)
             (\<lambda>d. Inr d) (data_window busier_detector)
           = Inr (data_window busier_detector)"
    by (simp add: busier_detector_def repeated_matches repeated_in_last_hour)
  have l: "length (data_window busier_detector) = 13"
    by (simp add: busier_detector_def)
  show ?thesis
    unfolding detect_frequency_anomaly_def Let_def
    by (simp add: repeated_fields hour_before_monday c l z_score_13 historical_mean
        z_score_threshold_def frequency_hit_def)
      (simp add: get_historical_frequencies_def)
qed

lemma busier_volume:
  "detect_volume_anomaly example_runtime busier_detector repeated_stock_out = Inr None"
proof -
  let ?fives = "[5, 5, 5, 5, 5, 5, 5, 5, 5, 5, 5, 5, 5 :: real]"
  have c: "comprehension
             (\<lambda>d. Inr (matches_pattern d repeated_stock_out
                        \<and> dict_get d ''quantity_abs'' PNone \<noteq> PNone))
             (\<lambda>d. py_float example_runtime (dict_get d ''quantity_abs'' (PInt 0)))
             (data_window busier_detector)
           = Inr ?fives"
    by (simp add: busier_detector_def repeated_matches repeated_fields)
  have m: "np_mean ?fives = 5" by (simp add: np_mean_def)
  have s: "np_std ?fives = 0" unfolding np_std_def m by simp
  have z: "calculate_z_score 5 ?fives = 0"
    by (simp add: calculate_z_score_def s Let_def)
  show ?thesis
    unfolding detect_volume_anomaly_def Let_def
    by (simp add: repeated_fields c z z_score_threshold_def)
qed

lemma busier_time:
  "detect_time_based_anomaly busier_detector repeated_stock_out = Inr None"
  by (simp add: detect_time_based_anomaly_def repeated_fields py_get_def dict_get_Nil
      dict_get_Cons Let_def)

lemma busier_stock:
  "get_current_stock_level example_runtime busier_detector (PStr ''I1'') = Inr (PFloat 35)"
proof -
  have f: "filter (\<lambda>d. py_eq (dict_get d ''item_id'' PNone) (PStr ''I1''))
             (data_window busier_detector) = data_window busier_detector"
    by (simp add: busier_detector_def repeated_fields py_eq_str py_eq_None_str)
  have h: "hash_of example_runtime (PStr ''I1'') = 3000"
    by (simp add: example_runtime_def)
  show ?thesis
    unfolding get_current_stock_level_def Let_def f h
    by (simp add: busier_detector_def repeated_fields py_sum_def py_add_def py_real_def)
qed

lemma busier_negative:
  "detect_negative_stock example_runtime busier_detector repeated_stock_out = Inr None"
  by (simp add: detect_negative_stock_def Let_def repeated_fields busier_stock py_eq_str py_eq_None_str
      py_add_def py_real_def negative_stock_threshold_def)

lemma busier_depletion:
  "detect_rapid_depletion example_runtime busier_detector repeated_stock_out
     = Inr (Some depletion_hit)"
proof -
  have c: "comprehension
             (\<lambda>d. if py_eq (dict_get d ''item_id'' PNone) (PStr ''I1'')
                      \<and> py_eq (dict_get d ''action'' PNone) (PStr ''stock_out'')
                   then in_last_hour 63845744400000000 d else Inr False)
             (\<lambda>d. Inr (dict_get d ''quantity_abs'' (PInt 0)))
             (data_window busier_detector)
           = Inr (replicate 13 (PFloat 5))"
    by (simp add: busier_detector_def repeated_fields repeated_in_last_hour py_eq_str py_eq_None_str
        eval_nat_numeral)
  have s: "py_sum (replicate 13 (PFloat 5)) = Inr (PFloat 65)"
    by (simp add: py_sum_def py_add_def eval_nat_numeral)
  show ?thesis
    unfolding detect_rapid_depletion_def Let_def
    by (simp add: repeated_fields hour_before_monday c s busier_stock py_eq_str py_eq_None_str py_real_def
        rapid_depletion_threshold_def depletion_hit_def)
qed

lemma busier_location:
  "detect_unusual_location_activity busier_detector repeated_stock_out = Inr None"
  by (simp add: detect_unusual_location_activity_def Let_def repeated_fields)

lemma busier_high_value:
  "detect_high_value_anomalies repeated_stock_out = Inr None"
  by (simp add: detect_high_value_anomalies_def Let_def repeated_fields py_get_def
      dict_get_Nil)

lemma busier_supplier:
  "detect_supplier_anomalies busier_detector repeated_stock_out = Inr None"
  by (simp add: detect_supplier_anomalies_def Let_def repeated_fields py_get_def
      dict_get_Nil py_eq_str py_eq_None_str)

lemma busier_collect:
  "collect_anomalies example_runtime busier_detector repeated_stock_out
     = Inr [frequency_hit, depletion_hit]"
  by (simp add: collect_anomalies_def detect_inventory_specific_anomalies_def busier_volume
      busier_time busier_frequency busier_negative busier_depletion busier_location
      busier_high_value busier_supplier flagged_def opt_list_def frequency_hit_def)

lemma busy_detect:
  "detect example_runtime busy_detector repeated_stock_out = Inr (frequency_hit, busier_detector)"
  by (simp add: detect_def add_to_busy busier_collect Let_def)
    (simp add: frequency_hit_def depletion_hit_def)

text \<open>
  The element that \<^verbatim>\<open>max\<close> returns splits the list: every element before it has a
  strictly smaller key, no element after it has a greater one.
\<close>

lemma max_by_confidence_first:
  "\<exists>pre suf. best # xs = pre @ max_by_confidence best xs # suf \<and>
     (\<forall>h\<in>set pre. confidence h < confidence (max_by_confidence best xs)) \<and>
     (\<forall>h\<in>set suf. confidence h \<le> confidence (max_by_confidence best xs))"
proof (induction xs arbitrary: best)
  case Nil
  have "[best] = [] @ best # []" by simp
  then show ?case by force
next
  case (Cons x xs)
  show ?case
  proof (cases "confidence best < confidence x")
    case True
    let ?r = "max_by_confidence x xs"
    from Cons.IH [of x] obtain pre suf where
      d: "x # xs = pre @ ?r # suf"
      and p: "\<forall>h\<in>set pre. confidence h < confidence ?r"
      and s: "\<forall>h\<in>set suf. confidence h \<le> confidence ?r"
      by blast
    have "confidence x \<le> confidence ?r"
    proof (cases pre)
      case Nil
      with d have "x = ?r" by (metis append_Nil list.inject)
      then show ?thesis by (metis order_refl)
    next
      case (Cons a as)
      with d have "x \<in> set pre" by simp
      with p show ?thesis by force
    qed
    with True have b: "confidence best < confidence ?r" by simp
    have "best # x # xs = (best # pre) @ ?r # suf" using d by simp
    moreover have "\<forall>h\<in>set (best # pre). confidence h < confidence ?r"
      using b p by simp
    ultimately show ?thesis using True s by (metis max_by_confidence.simps(2))
  next
    case False
    let ?r = "max_by_confidence best xs"
    from Cons.IH [of best] obtain pre suf where
      d: "best # xs = pre @ ?r # suf"
      and p: "\<forall>h\<in>set pre. confidence h < confidence ?r"
      and s: "\<forall>h\<in>set suf. confidence h \<le> confidence ?r"
      by blast
    have r: "max_by_confidence best (x # xs) = ?r" using False by simp
    show ?thesis
    proof (cases pre)
      case Nil
      with d have rb: "?r = best" and sx: "suf = xs"
        by (metis append_Nil list.inject)+
      have "best # x # xs = [] @ ?r # (x # xs)" using rb by simp
      moreover have "\<forall>h\<in>set (x # xs). confidence h \<le> confidence ?r"
        using False s sx rb by auto
      ultimately show ?thesis unfolding r by (metis empty_iff list.set(1))
    next
      case (Cons a as)
      with d have ab: "a = best" and xs: "xs = as @ ?r # suf"
        by (metis append_Cons list.inject)+
      have "best \<in> set pre" using Cons ab by simp
      with p have "confidence best < confidence ?r" by blast
      with False have xr: "confidence x < confidence ?r" by simp
      have "best # x # xs = (best # x # as) @ ?r # suf" using xs by simp
      moreover have "\<forall>h\<in>set (best # x # as). confidence h < confidence ?r"
        using p xr Cons ab by simp
      ultimately show ?thesis unfolding r using s by blast
    qed
  qed
qed

subsection \<open>Claim C4\<close>

text \<open>
  C4, as amended. When \<^verbatim>\<open>detect\<close> returns, its result is taken from the list of
  all detector hits, in detector order: with no hit it is the result without anomaly;
  otherwise it is a hit of the highest confidence, and among the hits that tie on the
  highest confidence it is the earliest in detector order (every hit before it has a
  strictly lower confidence). Severity is not compared.
\<close>

theorem C4_detect_first_of_highest_confidence:
  assumes "detect rt det ev = Inr (result, det')"
  shows "\<exists>anomalies.
           collect_anomalies rt (add_to_window det ev) ev = Inr anomalies \<and>
           (anomalies = [] \<longrightarrow> result = no_anomaly) \<and>
           (anomalies \<noteq> [] \<longrightarrow>
              (\<exists>pre suf. anomalies = pre @ result # suf \<and>
                 (\<forall>h\<in>set pre. confidence h < confidence result) \<and>
                 (\<forall>h\<in>set suf. confidence h \<le> confidence result)))"
proof -
  obtain anomalies where
    c: "collect_anomalies rt (add_to_window det ev) ev = Inr anomalies"
    and r: "(case anomalies of [] \<Rightarrow> Inr (no_anomaly, add_to_window det ev)
             | a # rest \<Rightarrow> Inr (max_by_confidence a rest, add_to_window det ev))
            = (Inr (result, det') :: error + AnomalyResult \<times> InventoryAnomalyDetector)"
  proof (cases "collect_anomalies rt (add_to_window det ev) ev")
    case (Inl e)
    with assms show ?thesis by (simp add: detect_def Let_def)
  next
    case (Inr anomalies)
    have "(case anomalies of [] \<Rightarrow> Inr (no_anomaly, add_to_window det ev)
             | a # rest \<Rightarrow> Inr (max_by_confidence a rest, add_to_window det ev))
            = (Inr (result, det') :: error + AnomalyResult \<times> InventoryAnomalyDetector)"
      using assms unfolding detect_def Let_def Inr by (simp only: sum.case)
    with Inr show ?thesis by (rule that)
  qed
  show ?thesis
  proof (cases anomalies)
    case Nil
    with c r show ?thesis by simp
  next
    case (Cons a rest)
    with r have "result = max_by_confidence a rest" by simp
    with max_by_confidence_first [of a rest] Cons c show ?thesis by auto
  qed
qed

text \<open>
  Claim C4 at the thirteenth stock-out: the frequency hit and the depletion hit both
  have confidence 1, and the frequency hit, the earlier one, is returned.
\<close>

theorem C4_detect_witness:
  "detect example_runtime busy_detector repeated_stock_out
     = Inr (frequency_hit, busier_detector) \<and>
   collect_anomalies example_runtime busier_detector repeated_stock_out
     = Inr ([] @ frequency_hit # [depletion_hit]) \<and>
   confidence depletion_hit \<le> confidence frequency_hit"
  using C4_detect_first_of_highest_confidence [OF busy_detect] busy_detect busier_collect
  by (simp add: frequency_hit_def depletion_hit_def)

text \<open>
  The claim as stated lets the higher severity win a tie on confidence. Here the
  frequency hit (severity medium) and the rapid-depletion hit (severity high) tie on
  confidence 1, and \<^verbatim>\<open>detect\<close> returns the hit of severity medium.
\<close>

theorem C4_severity_tie_counterexample:
  "detect example_runtime busy_detector repeated_stock_out
     = Inr (frequency_hit, add_to_window busy_detector repeated_stock_out) \<and>
   collect_anomalies example_runtime (add_to_window busy_detector repeated_stock_out)
     repeated_stock_out = Inr [frequency_hit, depletion_hit] \<and>
   confidence frequency_hit = 1 \<and> confidence depletion_hit = 1 \<and>
   anomaly_severity frequency_hit = ''medium'' \<and>
   anomaly_severity depletion_hit = ''high''"
  by (simp add: busy_detect busier_collect add_to_busy)
    (simp add: frequency_hit_def depletion_hit_def)

end
